theory Spec2Isabelle
  imports Complex_Main "HOL-Library.AList"
begin

section \<open>Layout manager: the dashboard's widget collection\<close>

text \<open>
  The dashboard component keeps its widgets in one React state variable,
  \<^verbatim>\<open>const [widgets, setWidgets] = useState<Widget[]>([])\<close>. Every layout operation
  computes a new array from the current one and hands it to \<^verbatim>\<open>setWidgets\<close>, so each
  operation is modelled as a function from the current collection to the next one.

  JavaScript numbers are modelled as reals: the model covers the finite numeric values
  (no NaN, no infinities, no rounding). Strings are lists of characters.
\<close>

datatype WidgetType =
  Stats | Chart | Activity | Finance | CryptoSurface | StockSurface
  | CryptoCandle | StockCandle | News

record Position =
  posx :: real
  posy :: real

record Size =
  width :: real
  height :: real

text \<open>
  \<^verbatim>\<open>interface Widget\<close>. The fields \<^verbatim>\<open>description\<close> and \<^verbatim>\<open>isMaximized\<close> are optional
  in the source; an absent field is \<open>None\<close>.
\<close>

record Widget =
  wid :: string
  wtype :: WidgetType
  title :: string
  description :: "string option"
  position :: Position
  wsize :: Size
  isMaximized :: "bool option"

text \<open>\<^verbatim>\<open>Omit<Widget, 'id' | 'position'>\<close>: what a template fixes.\<close>

record Template =
  ttype :: WidgetType
  ttitle :: string
  tdescription :: "string option"
  tsize :: Size

fun WIDGET_TEMPLATES :: "WidgetType \<Rightarrow> Template" where
  "WIDGET_TEMPLATES Stats =
     \<lparr>ttype = Stats, ttitle = ''Quick Stats'',
      tdescription = Some ''Overview of key metrics'',
      tsize = \<lparr>width = 300, height = 200\<rparr>\<rparr>"
| "WIDGET_TEMPLATES Chart =
     \<lparr>ttype = Chart, ttitle = ''Performance Chart'',
      tdescription = Some ''Visual representation of data'',
      tsize = \<lparr>width = 500, height = 300\<rparr>\<rparr>"
| "WIDGET_TEMPLATES Activity =
     \<lparr>ttype = Activity, ttitle = ''Recent Activity'',
      tdescription = Some ''Latest actions and updates'',
      tsize = \<lparr>width = 400, height = 300\<rparr>\<rparr>"
| "WIDGET_TEMPLATES Finance =
     \<lparr>ttype = Finance, ttitle = ''Financial Overview'',
      tdescription = Some ''Summary of financial data'',
      tsize = \<lparr>width = 400, height = 300\<rparr>\<rparr>"
| "WIDGET_TEMPLATES CryptoSurface =
     \<lparr>ttype = CryptoSurface, ttitle = ''Crypto 3D Surface'',
      tdescription = Some ''3D visualization of cryptocurrency price data'',
      tsize = \<lparr>width = 500, height = 400\<rparr>\<rparr>"
| "WIDGET_TEMPLATES StockSurface =
     \<lparr>ttype = StockSurface, ttitle = ''Stock 3D Surface'',
      tdescription = Some ''3D visualization of stock price data'',
      tsize = \<lparr>width = 500, height = 400\<rparr>\<rparr>"
| "WIDGET_TEMPLATES CryptoCandle =
     \<lparr>ttype = CryptoCandle, ttitle = ''Crypto Candlestick'',
      tdescription = Some ''Real-time cryptocurrency candlestick chart'',
      tsize = \<lparr>width = 500, height = 400\<rparr>\<rparr>"
| "WIDGET_TEMPLATES StockCandle =
     \<lparr>ttype = StockCandle, ttitle = ''Stock Candlestick'',
      tdescription = Some ''Real-time stock market candlestick chart'',
      tsize = \<lparr>width = 500, height = 400\<rparr>\<rparr>"
| "WIDGET_TEMPLATES News =
     \<lparr>ttype = News, ttitle = ''Financial News'',
      tdescription = Some ''Latest financial news and updates'',
      tsize = \<lparr>width = 400, height = 300\<rparr>\<rparr>"

text \<open>
  The decimal digits of a non-negative integer, as a template literal prints
  \<^verbatim>\<open>Date.now()\<close>.
\<close>

fun string_of_nat :: "nat \<Rightarrow> string" where
  "string_of_nat n =
     (if n < 10 then [''0123456789'' ! n]
      else string_of_nat (n div 10) @ [''0123456789'' ! (n mod 10)])"

declare string_of_nat.simps [simp del]

text \<open>\<^verbatim>\<open>`widget-${Date.now()}`\<close>, with the clock's reading \<open>now\<close> (milliseconds).\<close>

definition widget_id :: "nat \<Rightarrow> string" where
  "widget_id now = ''widget-'' @ string_of_nat now"

text \<open>
  \<^verbatim>\<open>addWidget(type)\<close>. Its two inputs from the environment are explicit: \<open>now\<close> is
  what \<^verbatim>\<open>Date.now()\<close> returns, and \<open>dashboardRect\<close> is the width of the bounding
  rectangle of the element \<^verbatim>\<open>dashboard-container\<close>, \<open>None\<close> when the element is
  not found (only the width of the rectangle is read).
\<close>

definition addWidget :: "WidgetType \<Rightarrow> nat \<Rightarrow> real option \<Rightarrow> Widget list \<Rightarrow> Widget list" where
  "addWidget type now dashboardRect widgets =
     (let template = WIDGET_TEMPLATES type in
      case dashboardRect of
        Some rect_width \<Rightarrow>
          widgets @
            [\<lparr>wid = widget_id now, wtype = ttype template, title = ttitle template,
              description = tdescription template,
              position = \<lparr>posx = max 0 ((rect_width - width (tsize template)) / 2),
                          posy = max 0 100\<rparr>,
              wsize = tsize template, isMaximized = None\<rparr>]
      | None \<Rightarrow>
          widgets @
            [\<lparr>wid = widget_id now, wtype = ttype template, title = ttitle template,
              description = tdescription template,
              position = \<lparr>posx = 50, posy = 100\<rparr>,
              wsize = tsize template, isMaximized = None\<rparr>])"

definition removeWidget :: "string \<Rightarrow> Widget list \<Rightarrow> Widget list" where
  "removeWidget i widgets = filter (\<lambda>w. wid w \<noteq> i) widgets"

definition moveWidget :: "string \<Rightarrow> real \<Rightarrow> real \<Rightarrow> Widget list \<Rightarrow> Widget list" where
  "moveWidget i x y widgets =
     (let newX = max 0 x; newY = max 0 y in
      map (\<lambda>w. if wid w = i then w\<lparr>position := \<lparr>posx = newX, posy = newY\<rparr>\<rparr> else w)
        widgets)"

definition resizeWidget :: "string \<Rightarrow> real \<Rightarrow> real \<Rightarrow> Widget list \<Rightarrow> Widget list" where
  "resizeWidget i w h widgets =
     map (\<lambda>v. if wid v = i then v\<lparr>wsize := \<lparr>width = w, height = h\<rparr>\<rparr> else v) widgets"

text \<open>\<^verbatim>\<open>!w.isMaximized\<close>: an absent flag is falsy, so the first toggle sets it.\<close>

definition toggleMaximize :: "string \<Rightarrow> Widget list \<Rightarrow> Widget list" where
  "toggleMaximize i widgets =
     map (\<lambda>w. if wid w = i
               then w\<lparr>isMaximized := Some (\<not> (case isMaximized w of None \<Rightarrow> False | Some b \<Rightarrow> b))\<rparr>
               else w)
       widgets"

text \<open>The invariant of the data model: positions and sizes are non-negative.\<close>

definition widget_nonneg :: "Widget \<Rightarrow> bool" where
  "widget_nonneg w =
     (0 \<le> posx (position w) \<and> 0 \<le> posy (position w) \<and>
      0 \<le> width (wsize w) \<and> 0 \<le> height (wsize w))"

definition layout_inv :: "Widget list \<Rightarrow> bool" where
  "layout_inv widgets = list_all widget_nonneg widgets"

text \<open>A sample widget for the concrete instances below.\<close>

definition sample_widget :: "string \<Rightarrow> Widget" where
  "sample_widget i =
     \<lparr>wid = i, wtype = Chart, title = ''Performance Chart'',
      description = Some ''Visual representation of data'',
      position = \<lparr>posx = 350, posy = 100\<rparr>,
      wsize = \<lparr>width = 500, height = 300\<rparr>, isMaximized = None\<rparr>"


section \<open>Layout manager: the drag and resize gesture of a card\<close>

text \<open>
  The component \<^verbatim>\<open>FlexibleCard\<close> keeps the card's geometry and the running gesture in
  React state; \<^verbatim>\<open>dragStart\<close> is the baseline captured at pointer-down.
\<close>

record DragStart =
  mouseX :: real
  mouseY :: real
  elementX :: real
  elementY :: real
  startWidth :: real
  startHeight :: real

record CardState =
  cardWidth :: real
  cardHeight :: real
  cardX :: real
  cardY :: real
  isDragging :: bool
  isResizing :: bool
  resizeDirection :: "string option"
  dragStart :: DragStart

text \<open>
  The props the handler reads. \<^verbatim>\<open>onMove\<close> and \<^verbatim>\<open>onResize\<close> are optional callbacks:
  the flags say whether they were passed.
\<close>

record CardProps =
  minWidth :: real
  minHeight :: real
  cardMaximized :: bool
  hasOnMove :: bool
  hasOnResize :: bool

datatype CardCallback = OnMove real real | OnResize real real

text \<open>\<^verbatim>\<open>resizeDirection?.includes(c)\<close>: false when no direction is set.\<close>

definition dir_includes :: "string option \<Rightarrow> char \<Rightarrow> bool" where
  "dir_includes d c = (case d of None \<Rightarrow> False | Some s \<Rightarrow> c \<in> set s)"

text \<open>The eight directions the resize handles pass to \<^verbatim>\<open>handleResizeStart\<close>.\<close>

definition resize_directions :: "string list" where
  "resize_directions = [''n'', ''s'', ''e'', ''w'', ''ne'', ''nw'', ''se'', ''sw'']"

text \<open>
  \<^verbatim>\<open>handleMouseMove(e)\<close> with \<open>clientX = e.clientX\<close>, \<open>clientY = e.clientY\<close>: the new
  component state and the callbacks invoked, in order. The successive assignments to
  \<^verbatim>\<open>newWidth\<close>, \<^verbatim>\<open>newHeight\<close>, \<^verbatim>\<open>newX\<close>, \<^verbatim>\<open>newY\<close> are the numbered bindings.
\<close>

definition handleMouseMove :: "CardProps \<Rightarrow> real \<Rightarrow> real \<Rightarrow> CardState \<Rightarrow> CardState \<times> CardCallback list" where
  "handleMouseMove p clientX clientY c =
     (let ds = dragStart c; d = resizeDirection c in
      if isDragging c \<and> \<not> cardMaximized p then
        (let newX = elementX ds + (clientX - mouseX ds);
             newY = elementY ds + (clientY - mouseY ds)
         in (c\<lparr>cardX := newX, cardY := newY\<rparr>,
             if hasOnMove p then [OnMove newX newY] else []))
      else if isResizing c \<and> \<not> cardMaximized p then
        (let deltaX = clientX - mouseX ds;
             deltaY = clientY - mouseY ds;
             newWidth1 = (if dir_includes d CHR ''e''
                          then max (minWidth p) (startWidth ds + deltaX) else startWidth ds);
             newHeight1 = (if dir_includes d CHR ''s''
                           then max (minHeight p) (startHeight ds + deltaY) else startHeight ds);
             newWidth2 = (if dir_includes d CHR ''w''
                          then max (minWidth p) (startWidth ds - deltaX) else newWidth1);
             newX = (if dir_includes d CHR ''w'' \<and> newWidth2 \<noteq> startWidth ds
                     then elementX ds + (startWidth ds - newWidth2) else elementX ds);
             newHeight2 = (if dir_includes d CHR ''n''
                           then max (minHeight p) (startHeight ds - deltaY) else newHeight1);
             newY = (if dir_includes d CHR ''n'' \<and> newHeight2 \<noteq> startHeight ds
                     then elementY ds + (startHeight ds - newHeight2) else elementY ds)
         in (c\<lparr>cardWidth := newWidth2, cardHeight := newHeight2, cardX := newX, cardY := newY\<rparr>,
             (if hasOnResize p then [OnResize newWidth2 newHeight2] else []) @
             (if hasOnMove p \<and> (dir_includes d CHR ''w'' \<or> dir_includes d CHR ''n'')
              then [OnMove newX newY] else [])))
      else (c, []))"

text \<open>A card in the middle of a resize gesture, for the concrete instances below.\<close>

definition resizing_card :: "string \<Rightarrow> real \<Rightarrow> real \<Rightarrow> CardState" where
  "resizing_card d w h =
     \<lparr>cardWidth = w, cardHeight = h, cardX = 100, cardY = 100,
      isDragging = False, isResizing = True, resizeDirection = Some d,
      dragStart = \<lparr>mouseX = 0, mouseY = 0, elementX = 100, elementY = 100,
                   startWidth = w, startHeight = h\<rparr>\<rparr>"

definition default_props :: CardProps where
  "default_props =
     \<lparr>minWidth = 200, minHeight = 150, cardMaximized = False,
      hasOnMove = True, hasOnResize = True\<rparr>"


section \<open>Subscription multiplexer: the ticker normaliser\<close>

text \<open>
  Strings are sequences of code units; every operation of the normaliser compares code
  units only. \<^verbatim>\<open>/^[A-Z]+-USD$/.test(input)\<close>: one or more capital letters followed by
  \<^verbatim>\<open>-USD\<close>, and nothing else.
\<close>

definition is_upper :: "char \<Rightarrow> bool" where
  "is_upper c = (c \<in> set ''ABCDEFGHIJKLMNOPQRSTUVWXYZ'')"

definition endsWith :: "string \<Rightarrow> string \<Rightarrow> bool" where
  "endsWith s suffix =
     (length suffix \<le> length s \<and> drop (length s - length suffix) s = suffix)"

definition matches_canonical :: "string \<Rightarrow> bool" where
  "matches_canonical input =
     (4 < length input \<and> endsWith input ''-USD'' \<and>
      list_all is_upper (take (length input - 4) input))"

text \<open>\<^verbatim>\<open>s.replace(pat, rep)\<close> with a string pattern: the first occurrence only.\<close>

fun replace_first :: "string \<Rightarrow> string \<Rightarrow> string \<Rightarrow> string" where
  "replace_first pat rep [] = (if pat = [] then rep else [])"
| "replace_first pat rep (c # cs) =
     (if take (length pat) (c # cs) = pat then rep @ drop (length pat) (c # cs)
      else c # replace_first pat rep cs)"

text \<open>
  \<^verbatim>\<open>s.replace(/(USD|USDT)$/, '')\<close>: a match must end at the end of the string, so it is
  the trailing \<^verbatim>\<open>USD\<close> or the trailing \<^verbatim>\<open>USDT\<close> (a string cannot end in both).
\<close>

definition remove_quote_suffix :: "string \<Rightarrow> string" where
  "remove_quote_suffix s =
     (if endsWith s ''USDT'' then take (length s - 4) s
      else if endsWith s ''USD'' then take (length s - 3) s
      else s)"

text \<open>\<^verbatim>\<open>s.includes(pat)\<close>.\<close>

fun includes_str :: "string \<Rightarrow> string \<Rightarrow> bool" where
  "includes_str pat [] = (pat = [])"
| "includes_str pat (c # cs) = (take (length pat) (c # cs) = pat \<or> includes_str pat cs)"

text \<open>
  \<^verbatim>\<open>convertTickerFormat(input)\<close>. \<^verbatim>\<open>formatted.split('-')[0]\<close> is the part of the string
  before its first hyphen (all of it when it has none).
\<close>

definition convertTickerFormat :: "string \<Rightarrow> string" where
  "convertTickerFormat input =
     (if matches_canonical input then input
      else if input = ''*'' then input
      else
        (let formatted1 = replace_first ''X:'' [] input;
             formatted2 = remove_quote_suffix formatted1;
             formatted3 =
               (if \<not> includes_str ''-'' formatted2 \<and> 6 \<le> length formatted2
                then take 3 formatted2 @ ''-'' @ drop 3 formatted2
                else formatted2)
         in if \<not> endsWith formatted3 ''-USD''
            then takeWhile (\<lambda>c. c \<noteq> CHR ''-'') formatted3 @ ''-USD''
            else formatted3))"


definition ticker_base :: "string \<Rightarrow> string" where
  "ticker_base t = take (length t - 4) t"


section \<open>Subscription multiplexer: the shared connection and its registry\<close>

text \<open>
  The module-level variables of \<^verbatim>\<open>useLiveCryptoPrice.ts\<close> form one state record, passed
  through every operation. Callbacks are JavaScript function objects, compared by
  reference: a listener (trade callback) and a status handler are modelled by their
  identities.

  \<^verbatim>\<open>Set<string>\<close> and \<^verbatim>\<open>Map<string, Set<...>>\<close> keep insertion order; they are modelled as
  lists (a set: a list in which \<open>set_add\<close> never stores an element twice; the map: an
  association list updated in place or extended at the end).

  The socket is the object \<^verbatim>\<open>websocketClient(apiKey).crypto()\<close> returns. The model reads
  two things of it: its \<^verbatim>\<open>readyState\<close> (1 is OPEN) and whether \<^verbatim>\<open>send\<close> throws; both are
  decided by the transport, not by this module.

  What the module does to the outside is recorded in \<open>effects\<close>, in order: frames
  accepted by \<^verbatim>\<open>send\<close>, calls of \<^verbatim>\<open>close\<close>, status callbacks, the empty-batch notices to
  listeners, timers set and cleared. Console output, the error-text callback and the
  continuations attached to the connection promise are not recorded.
\<close>

type_synonym listener = nat
type_synonym handler = nat

record WsClient =
  readyState :: nat
  sendThrows :: bool

datatype Status =
  Connecting | Connected | Disconnected nat string | ReconnectingIn nat | StatusError
  | Authenticated | SetupError | ConnectedTo string | ConnectionError
  | SubscriptionErrorFor string | ConnectingTo string | ManuallyReconnecting
  | ReconnectFailed

datatype Timer = SilentReset | PendingFlush | Reconnect

datatype Effect =
  Send string string
  | CloseSocket
  | Notify handler Status
  | Deliver listener
  | SetTimeout Timer nat
  | ClearTimeout

record MuxState =
  sharedWsClient :: "WsClient option"
  isConnected :: bool
  isAuthenticated :: bool
  currentSubscriptions :: "string list"
  apiKeyRef :: string
  connectingPromise :: bool
  pendingSubscriptions :: "string list"
  reconnectAttempts :: nat
  reconnectTimer :: "nat option"
  isAddingNewSubscription :: bool
  statusUpdateHandlers :: "handler list"
  subscribers :: "(string \<times> listener list) list"
  effects :: "Effect list"

definition maxReconnectAttempts :: nat where
  "maxReconnectAttempts = 5"

definition initial_state :: MuxState where
  "initial_state =
     \<lparr>sharedWsClient = None, isConnected = False, isAuthenticated = False,
      currentSubscriptions = [], apiKeyRef = [], connectingPromise = False,
      pendingSubscriptions = [], reconnectAttempts = 0, reconnectTimer = None,
      isAddingNewSubscription = False, statusUpdateHandlers = [], subscribers = [],
      effects = []\<rparr>"

definition set_add :: "'a \<Rightarrow> 'a list \<Rightarrow> 'a list" where
  "set_add x xs = (if x \<in> set xs then xs else xs @ [x])"

definition set_delete :: "'a \<Rightarrow> 'a list \<Rightarrow> 'a list" where
  "set_delete x xs = removeAll x xs"

definition emit :: "Effect list \<Rightarrow> MuxState \<Rightarrow> MuxState" where
  "emit es s = s\<lparr>effects := effects s @ es\<rparr>"

text \<open>The listeners registered for a canonical ticker (none when the map has no entry).\<close>

definition listeners_of :: "MuxState \<Rightarrow> string \<Rightarrow> listener list" where
  "listeners_of s key = (case map_of (subscribers s) key of None \<Rightarrow> [] | Some cbs \<Rightarrow> cbs)"

text \<open>\<^verbatim>\<open>formattedTicker === '*' ? 'XT.*' : `XT.${formattedTicker}`\<close>\<close>

definition subscription_for :: "string \<Rightarrow> string" where
  "subscription_for formattedTicker =
     (if formattedTicker = ''*'' then ''XT.*'' else ''XT.'' @ formattedTicker)"

text \<open>\<^verbatim>\<open>sharedWsClient && isAuthenticated && sharedWsClient.readyState === 1\<close>\<close>

definition socket_ready :: "MuxState \<Rightarrow> bool" where
  "socket_ready s =
     (case sharedWsClient s of
        None \<Rightarrow> False
      | Some ws \<Rightarrow> isAuthenticated s \<and> readyState ws = 1)"

definition registerStatusUpdateHandler :: "handler \<Rightarrow> MuxState \<Rightarrow> MuxState" where
  "registerStatusUpdateHandler h s = s\<lparr>statusUpdateHandlers := statusUpdateHandlers s @ [h]\<rparr>"

definition unregisterStatusUpdateHandler :: "handler \<Rightarrow> MuxState \<Rightarrow> MuxState" where
  "unregisterStatusUpdateHandler h s =
     s\<lparr>statusUpdateHandlers := filter (\<lambda>h'. h' \<noteq> h) (statusUpdateHandlers s)\<rparr>"

definition updateAllStatusExceptNew :: "Status \<Rightarrow> handler option \<Rightarrow> MuxState \<Rightarrow> MuxState" where
  "updateAllStatusExceptNew status excludeHandler s =
     (if isAddingNewSubscription s then
        (case excludeHandler of
           Some h \<Rightarrow> emit [Notify h status] s
         | None \<Rightarrow> s)
      else emit (map (\<lambda>h. Notify h status) (statusUpdateHandlers s)) s)"

text \<open>
  \<^verbatim>\<open>setupWebSocket(apiKey, statusCallback, errorCallback)\<close>, the part that runs at the
  call. \<open>created\<close> is what \<^verbatim>\<open>websocketClient(apiKey).crypto()\<close> gives: the new socket, or
  \<open>None\<close> when it throws. The promise constructor runs its executor at once, so the
  \<^verbatim>\<open>connectingPromise = null\<close> of the executor's catch block is overwritten by the
  assignment of the new promise: a promise is stored on both paths.
\<close>

definition setupWebSocket :: "WsClient option \<Rightarrow> string \<Rightarrow> handler \<Rightarrow> MuxState \<Rightarrow> MuxState" where
  "setupWebSocket created apiKey statusCallback s =
     (if sharedWsClient s \<noteq> None \<and> isConnected s then s
      else if connectingPromise s then s
      else
        (let s1 = s\<lparr>apiKeyRef := apiKey\<rparr>;
             s2 = (if isAddingNewSubscription s1
                   then emit [Notify statusCallback Connecting] s1
                   else updateAllStatusExceptNew Connecting (Some statusCallback) s1)
         in case created of
              Some cryptoWS \<Rightarrow> s2\<lparr>sharedWsClient := Some cryptoWS, connectingPromise := True\<rparr>
            | None \<Rightarrow>
                (let s3 = (if \<not> isAddingNewSubscription s2
                           then updateAllStatusExceptNew SetupError (Some statusCallback) s2
                           else s2)
                 in s3\<lparr>connectingPromise := True\<rparr>)))"

text \<open>
  \<^verbatim>\<open>cryptoWS.onopen\<close>, for the socket \<open>cryptoWS\<close> and the \<open>statusCallback\<close> and \<open>apiKey\<close>
  its closure holds. A throwing \<^verbatim>\<open>send\<close> is caught (the promise is rejected).
\<close>

definition ws_onopen :: "WsClient \<Rightarrow> handler \<Rightarrow> string \<Rightarrow> MuxState \<Rightarrow> MuxState" where
  "ws_onopen cryptoWS statusCallback apiKey s =
     (let s1 = s\<lparr>isConnected := True\<rparr>;
          s2 = (if isAddingNewSubscription s1
                then emit [Notify statusCallback Connected] s1
                else updateAllStatusExceptNew Connected (Some statusCallback) s1);
          s3 = s2\<lparr>reconnectAttempts := 0\<rparr>
      in if sendThrows cryptoWS then s3 else emit [Send ''auth'' apiKey] s3)"

text \<open>
  \<^verbatim>\<open>cryptoWS.onclose\<close>, with the close event's \<open>code\<close> and \<open>reason\<close>. The delay is in
  milliseconds; \<^verbatim>\<open>reconnectTimer\<close> holds the handle of the timer last set (modelled by
  its delay) and is not reset when that timer fires.
\<close>

definition ws_onclose :: "handler \<Rightarrow> nat \<Rightarrow> string \<Rightarrow> MuxState \<Rightarrow> MuxState" where
  "ws_onclose statusCallback code reason s =
     (let s1 = s\<lparr>isConnected := False, isAuthenticated := False\<rparr>;
          s2 = (if \<not> isAddingNewSubscription s1
                then updateAllStatusExceptNew (Disconnected code reason) (Some statusCallback) s1
                else s1);
          s3 = s2\<lparr>sharedWsClient := None, connectingPromise := False\<rparr>;
          s4 = (if \<not> isAddingNewSubscription s3
                then emit (concat (map (\<lambda>(ticker, callbacks). map Deliver callbacks) (subscribers s3))) s3
                else s3)
      in if subscribers s4 \<noteq> [] \<and> reconnectAttempts s4 < maxReconnectAttempts then
           (let s5 = s4\<lparr>reconnectAttempts := reconnectAttempts s4 + 1\<rparr>;
                s6 = (if reconnectTimer s5 \<noteq> None then emit [ClearTimeout] s5 else s5);
                delay = min (1000 * 2 ^ (reconnectAttempts s6 - 1)) 30000;
                s7 = (if \<not> isAddingNewSubscription s6
                      then updateAllStatusExceptNew (ReconnectingIn delay) (Some statusCallback) s6
                      else s6)
            in (emit [SetTimeout Reconnect delay] s7)\<lparr>reconnectTimer := Some delay\<rparr>)
         else s4)"

text \<open>The callback of the reconnect timer: \<^verbatim>\<open>setupWebSocket(apiKeyRef, statusCallback, errorCallback)\<close>.\<close>

definition reconnectTimeout :: "WsClient option \<Rightarrow> handler \<Rightarrow> MuxState \<Rightarrow> MuxState" where
  "reconnectTimeout created statusCallback s = setupWebSocket created (apiKeyRef s) statusCallback s"

text \<open>
  \<^verbatim>\<open>processPendingSubscriptions(cryptoWS)\<close>: the check, and the timer it sets. Its timer
  callback is \<open>pendingTimeout\<close>; the loop over the pending set is \<open>flush_pending\<close>.
\<close>

definition processPendingSubscriptions :: "WsClient \<Rightarrow> MuxState \<Rightarrow> bool \<times> MuxState" where
  "processPendingSubscriptions cryptoWS s =
     (if \<not> isAuthenticated s \<or> readyState cryptoWS \<noteq> 1 then (False, s)
      else (True, emit [SetTimeout PendingFlush 500] s))"

fun flush_pending :: "WsClient \<Rightarrow> string list \<Rightarrow> MuxState \<Rightarrow> MuxState" where
  "flush_pending cryptoWS [] s = s"
| "flush_pending cryptoWS (subscription # rest) s =
     flush_pending cryptoWS rest
       (if subscription \<notin> set (currentSubscriptions s) then
          (if sendThrows cryptoWS then s
           else (emit [Send ''subscribe'' subscription] s)
                  \<lparr>currentSubscriptions := currentSubscriptions s @ [subscription]\<rparr>)
        else s)"

definition pendingTimeout :: "WsClient \<Rightarrow> MuxState \<Rightarrow> MuxState" where
  "pendingTimeout cryptoWS s =
     (if pendingSubscriptions s \<noteq> [] then
        (flush_pending cryptoWS (pendingSubscriptions s) s)\<lparr>pendingSubscriptions := []\<rparr>
      else s)"

text \<open>
  \<^verbatim>\<open>cryptoWS.onmessage\<close> for the frame that acknowledges the authentication
  (\<^verbatim>\<open>[{ev: 'status', status: 'auth_success'}]\<close>); such a frame carries no trades.
\<close>

definition ws_onmessage_auth_success :: "WsClient \<Rightarrow> handler \<Rightarrow> MuxState \<Rightarrow> MuxState" where
  "ws_onmessage_auth_success cryptoWS statusCallback s =
     (let s1 = (if \<not> isAddingNewSubscription s
                then updateAllStatusExceptNew Authenticated (Some statusCallback) s
                else s);
          s2 = s1\<lparr>isAuthenticated := True\<rparr>
      in snd (processPendingSubscriptions cryptoWS s2))"

text \<open>The callback of the 3-second timer of the silent mode.\<close>

definition silentTimeout :: "MuxState \<Rightarrow> MuxState" where
  "silentTimeout s = s\<lparr>isAddingNewSubscription := False\<rparr>"

text \<open>
  \<^verbatim>\<open>subscribeTicker(ticker, callback, statusCallback, silentMode)\<close>. \<open>created\<close> is the
  socket the environment hands out if the call sets up a connection.
\<close>

definition subscribeTicker ::
  "WsClient option \<Rightarrow> string \<Rightarrow> listener \<Rightarrow> handler \<Rightarrow> bool \<Rightarrow> MuxState \<Rightarrow> MuxState" where
  "subscribeTicker created ticker callback statusCallback silentMode s =
     (let formattedTicker = convertTickerFormat ticker;
          s1 = (if silentMode
                then emit [SetTimeout SilentReset 3000] (s\<lparr>isAddingNewSubscription := True\<rparr>)
                else s);
          s2 = s1\<lparr>subscribers :=
                    AList.update formattedTicker
                      (set_add callback (listeners_of s1 formattedTicker)) (subscribers s1)\<rparr>;
          subscription = subscription_for formattedTicker
      in if subscription \<in> set (currentSubscriptions s2) then
           emit [Notify statusCallback (ConnectedTo formattedTicker)] s2
         else
           (let s3 = s2\<lparr>pendingSubscriptions := set_add subscription (pendingSubscriptions s2)\<rparr>
            in if sharedWsClient s3 = None \<and> \<not> connectingPromise s3 then
                 setupWebSocket created (apiKeyRef s3) statusCallback s3
               else if socket_ready s3 then
                 (case sharedWsClient s3 of
                    None \<Rightarrow> s3
                  | Some ws \<Rightarrow>
                      if sendThrows ws then
                        emit [Notify statusCallback (SubscriptionErrorFor formattedTicker)] s3
                      else
                        emit [Send ''subscribe'' subscription,
                              Notify statusCallback (ConnectedTo formattedTicker)]
                          (s3\<lparr>currentSubscriptions := currentSubscriptions s3 @ [subscription],
                              pendingSubscriptions :=
                                set_delete subscription (pendingSubscriptions s3)\<rparr>))
               else emit [Notify statusCallback (ConnectingTo formattedTicker)] s3))"

text \<open>
  \<^verbatim>\<open>unsubscribeTicker(ticker, callback)\<close>. \<^verbatim>\<open>indexOf\<close> followed by \<^verbatim>\<open>splice(subIndex, 1)\<close>
  removes the first occurrence, if there is one. A throwing \<^verbatim>\<open>close\<close> is caught.
\<close>

definition unsubscribeTicker :: "string \<Rightarrow> listener \<Rightarrow> MuxState \<Rightarrow> MuxState" where
  "unsubscribeTicker ticker callback s =
     (let formattedTicker = convertTickerFormat ticker;
          subscription = subscription_for formattedTicker;
          s1 = s\<lparr>pendingSubscriptions := set_delete subscription (pendingSubscriptions s)\<rparr>
      in case map_of (subscribers s1) formattedTicker of
           None \<Rightarrow> s1
         | Some callbacks0 \<Rightarrow>
             (let callbacks = set_delete callback callbacks0;
                  s2 = s1\<lparr>subscribers := AList.update formattedTicker callbacks (subscribers s1)\<rparr>;
                  s3 = (if callbacks = [] then
                          (let s2a = s2\<lparr>subscribers := AList.delete formattedTicker (subscribers s2)\<rparr>
                           in if socket_ready s2a then
                                (if subscription \<in> set (currentSubscriptions s2a) then
                                   (case sharedWsClient s2a of
                                      None \<Rightarrow> s2a
                                    | Some ws \<Rightarrow>
                                        (if sendThrows ws then s2a
                                         else emit [Send ''unsubscribe'' subscription] s2a)
                                          \<lparr>currentSubscriptions :=
                                             remove1 subscription (currentSubscriptions s2a)\<rparr>)
                                 else s2a)
                              else s2a\<lparr>currentSubscriptions :=
                                         remove1 subscription (currentSubscriptions s2a)\<rparr>)
                        else s2)
              in if subscribers s3 = [] \<and> sharedWsClient s3 \<noteq> None then
                   (let s4 = (if reconnectTimer s3 \<noteq> None
                              then (emit [ClearTimeout] s3)\<lparr>reconnectTimer := None\<rparr>
                              else s3);
                        s5 = emit [CloseSocket] s4
                    in s5\<lparr>sharedWsClient := None, isConnected := False,
                          isAuthenticated := False, currentSubscriptions := [],
                          pendingSubscriptions := [], reconnectAttempts := 0,
                          isAddingNewSubscription := False\<rparr>)
                 else s3))"

text \<open>
  \<^verbatim>\<open>reconnect()\<close> of the hook, with the hook's \<^verbatim>\<open>setStatus\<close>. When the promise resolves,
  its continuation calls \<^verbatim>\<open>subscribeTicker(currentTickerRef.current, handleTrades, setStatus)\<close>.
\<close>

definition reconnect :: "WsClient option \<Rightarrow> handler \<Rightarrow> MuxState \<Rightarrow> MuxState" where
  "reconnect created setStatus s =
     (let s1 = (if sharedWsClient s \<noteq> None then
                  (emit [CloseSocket] s)
                    \<lparr>sharedWsClient := None, isConnected := False, isAuthenticated := False,
                     connectingPromise := False\<rparr>
                else s);
          s2 = (if reconnectTimer s1 \<noteq> None
                then (emit [ClearTimeout] s1)\<lparr>reconnectTimer := None\<rparr>
                else s1);
          s3 = s2\<lparr>reconnectAttempts := 0\<rparr>;
          s4 = emit [Notify setStatus ManuallyReconnecting] s3
      in setupWebSocket created (apiKeyRef s4) setStatus s4)"

text \<open>What is observed of a run: the frames sent, and the reconnect delays scheduled.\<close>

fun frame_of :: "Effect \<Rightarrow> (string \<times> string) list" where
  "frame_of (Send action params) = [(action, params)]"
| "frame_of _ = []"

fun delay_of :: "Effect \<Rightarrow> nat list" where
  "delay_of (SetTimeout Reconnect d) = [d]"
| "delay_of _ = []"

definition sent_frames :: "MuxState \<Rightarrow> (string \<times> string) list" where
  "sent_frames s = concat (map frame_of (effects s))"

definition reconnect_delays :: "MuxState \<Rightarrow> nat list" where
  "reconnect_delays s = concat (map delay_of (effects s))"

definition open_socket :: WsClient where
  "open_socket = \<lparr>readyState = 1, sendThrows = False\<rparr>"

definition new_socket :: WsClient where
  "new_socket = \<lparr>readyState = 0, sendThrows = False\<rparr>"

definition failing_socket :: WsClient where
  "failing_socket = \<lparr>readyState = 1, sendThrows = True\<rparr>"


text \<open>
  The representation invariant of the registry: the lists standing for sets hold no
  element twice, the active list holds no subscription twice, and no subscription is
  both pending and active.
\<close>

definition registry_wf :: "MuxState \<Rightarrow> bool" where
  "registry_wf s =
     (distinct (currentSubscriptions s) \<and> distinct (pendingSubscriptions s) \<and>
      distinct (map fst (subscribers s)) \<and>
      list_all (\<lambda>entry. distinct (snd entry)) (subscribers s) \<and>
      set (pendingSubscriptions s) \<inter> set (currentSubscriptions s) = {})"


text \<open>The connection is Ready and the transport takes a frame.\<close>

definition accepts_frames :: "MuxState \<Rightarrow> bool" where
  "accepts_frames s =
     (socket_ready s \<and> (case sharedWsClient s of None \<Rightarrow> False | Some ws \<Rightarrow> \<not> sendThrows ws))"


text \<open>
  A reconnect attempt that fails: the reconnect timer fires, the new socket \<open>created\<close>
  is set up, and it closes without having opened.
\<close>

definition retry_fails :: "WsClient \<Rightarrow> handler \<Rightarrow> nat \<Rightarrow> string \<Rightarrow> MuxState \<Rightarrow> MuxState" where
  "retry_fails created statusCallback code reason s =
     ws_onclose statusCallback code reason (reconnectTimeout (Some created) statusCallback s)"

text \<open>
  A run of the module from its initial state: one chart subscribes to \<^verbatim>\<open>BTC-USD\<close>, the
  socket opens, authenticates and the pending subscription is flushed
  (\<open>ready_state\<close>); then the transport closes and five reconnect attempts fail
  (\<open>given_up_state\<close>).
\<close>

definition ready_state :: MuxState where
  "ready_state =
     pendingTimeout open_socket
       (ws_onmessage_auth_success open_socket 10
          (ws_onopen open_socket 10 ''key''
             ((subscribeTicker (Some new_socket) ''BTC-USD'' 1 10 False
                 (initial_state\<lparr>apiKeyRef := ''key''\<rparr>))
              \<lparr>sharedWsClient := Some open_socket\<rparr>)))"

definition given_up_state :: MuxState where
  "given_up_state =
     ((retry_fails new_socket 10 1006 []) ^^ 5) (ws_onclose 10 1006 [] ready_state)"


text \<open>A second chart subscribes to the same ticker on the Ready connection.\<close>

definition two_listener_state :: MuxState where
  "two_listener_state = subscribeTicker None ''BTC-USD'' 2 11 False ready_state"

text \<open>The same state on a socket whose \<^verbatim>\<open>send\<close> throws.\<close>

definition two_listener_failing_state :: MuxState where
  "two_listener_failing_state = two_listener_state\<lparr>sharedWsClient := Some failing_socket\<rparr>"

text \<open>The transport closes while both charts are subscribed.\<close>

definition closed_two_listener_state :: MuxState where
  "closed_two_listener_state = ws_onclose 10 1006 [] two_listener_state"

text \<open>A third chart subscribes to another ticker on the Ready connection.\<close>

definition two_ticker_state :: MuxState where
  "two_ticker_state = subscribeTicker None ''ETH-USD'' 3 12 False two_listener_state"


section \<open>Layout manager: persistence\<close>

text \<open>
  The dashboard keeps the layout in the browser's local storage, under one key, as JSON
  text. \<^verbatim>\<open>JSON.parse\<close> and \<^verbatim>\<open>JSON.stringify\<close> are built into the platform; what the
  dashboard needs of them is modelled here.

  A parsed JSON value. The code units of a string are numbers, since an escape
  \<^verbatim>\<open>\uXXXX\<close> can denote any 16-bit unit. A number literal denotes its exact decimal
  value (the platform rounds it to the nearest double).
\<close>

datatype jsvalue =
  JNull | JBool bool | JNumber real | JString "nat list"
  | JArray "jsvalue list" | JObject "(nat list \<times> jsvalue) list"

text \<open>What \<^verbatim>\<open>JSON.parse\<close> throws on a text that is not JSON.\<close>

datatype SyntaxError = SyntaxError

definition is_ws :: "char \<Rightarrow> bool" where
  "is_ws c = (c \<in> set [CHR '' '', CHR 0x09, CHR 0x0A, CHR 0x0D])"

definition skip_ws :: "string \<Rightarrow> string" where
  "skip_ws s = dropWhile is_ws s"

definition starts :: "char \<Rightarrow> string \<Rightarrow> bool" where
  "starts c s = (case s of [] \<Rightarrow> False | d # ds \<Rightarrow> d = c)"

definition is_digit :: "char \<Rightarrow> bool" where
  "is_digit c = (c \<in> set ''0123456789'')"

definition digit_val :: "char \<Rightarrow> nat" where
  "digit_val c = length (takeWhile (\<lambda>d. d \<noteq> c) ''0123456789'')"

definition digits_val :: "string \<Rightarrow> nat" where
  "digits_val ds = foldl (\<lambda>a d. 10 * a + digit_val d) 0 ds"

definition hex_val :: "char \<Rightarrow> nat option" where
  "hex_val c =
     (if c \<in> set ''0123456789abcdef'' then Some (length (takeWhile (\<lambda>d. d \<noteq> c) ''0123456789abcdef''))
      else if c \<in> set ''ABCDEF'' then Some (10 + length (takeWhile (\<lambda>d. d \<noteq> c) ''ABCDEF''))
      else None)"

text \<open>
  A number: an optional minus sign, an integer part without a leading zero, an optional
  fraction and an optional exponent.
\<close>

definition parse_number :: "string \<Rightarrow> (real \<times> string) option" where
  "parse_number s =
     (let negative = starts CHR ''-'' s;
          s1 = (if negative then tl s else s);
          ints = takeWhile is_digit s1;
          s2 = dropWhile is_digit s1
      in if ints = [] \<or> (1 < length ints \<and> hd ints = CHR ''0'') then None
         else
           (let has_frac = starts CHR ''.'' s2;
                fracs = (if has_frac then takeWhile is_digit (tl s2) else []);
                s3 = (if has_frac then dropWhile is_digit (tl s2) else s2)
            in if has_frac \<and> fracs = [] then None
               else
                 (let has_exp = (starts CHR ''e'' s3 \<or> starts CHR ''E'' s3);
                      s4 = (if has_exp then tl s3 else s3);
                      exp_negative = (has_exp \<and> starts CHR ''-'' s4);
                      s5 = (if has_exp \<and> (starts CHR ''-'' s4 \<or> starts CHR ''+'' s4) then tl s4 else s4);
                      exps = (if has_exp then takeWhile is_digit s5 else []);
                      s6 = (if has_exp then dropWhile is_digit s5 else s3);
                      mantissa = real (digits_val ints) + real (digits_val fracs) / 10 ^ length fracs;
                      scaled = (if exp_negative then mantissa / 10 ^ digits_val exps
                                else mantissa * 10 ^ digits_val exps)
                  in if has_exp \<and> exps = [] then None
                     else Some (if negative then - scaled else scaled, s6))))"

definition unescape :: "char \<Rightarrow> nat option" where
  "unescape e =
     (if e = CHR 0x22 then Some 0x22
      else if e = CHR 0x5C then Some 0x5C
      else if e = CHR ''/'' then Some 0x2F
      else if e = CHR ''b'' then Some 8
      else if e = CHR ''f'' then Some 12
      else if e = CHR ''n'' then Some 10
      else if e = CHR ''r'' then Some 13
      else if e = CHR ''t'' then Some 9
      else None)"

definition hex4 :: "string \<Rightarrow> nat option" where
  "hex4 s =
     (case map hex_val (take 4 s) of
        [Some a, Some b, Some c, Some d] \<Rightarrow> Some (((a * 16 + b) * 16 + c) * 16 + d)
      | _ \<Rightarrow> None)"

text \<open>
  The rest of a string literal after its opening quote, up to the closing quote:
  escapes are decoded, a raw control character is refused.
\<close>

fun parse_chars :: "string \<Rightarrow> (nat list \<times> string) option" where
  "parse_chars [] = None"
| "parse_chars (c # cs) =
     (if c = CHR 0x22 then Some ([], cs)
      else if c = CHR 0x5C then
        (case cs of
           [] \<Rightarrow> None
         | e # es \<Rightarrow>
             if e = CHR ''u'' then
               (case hex4 es of
                  None \<Rightarrow> None
                | Some n \<Rightarrow> map_option (\<lambda>(str, r). (n # str, r)) (parse_chars (drop 4 es)))
             else
               (case unescape e of
                  None \<Rightarrow> None
                | Some n \<Rightarrow> map_option (\<lambda>(str, r). (n # str, r)) (parse_chars es)))
      else if (of_char c :: nat) < 32 then None
      else map_option (\<lambda>(str, r). (of_char c # str, r)) (parse_chars cs))"

text \<open>
  A value, the elements of an array and the members of an object, on a text whose
  leading white space is already skipped. The first argument bounds the recursion: of
  two consecutive calls at least one consumes a character, so twice the length of the
  text is never exhausted.
\<close>

fun parse_value :: "nat \<Rightarrow> string \<Rightarrow> (jsvalue \<times> string) option"
  and parse_elements :: "nat \<Rightarrow> jsvalue list \<Rightarrow> string \<Rightarrow> (jsvalue list \<times> string) option"
  and parse_members :: "nat \<Rightarrow> (nat list \<times> jsvalue) list \<Rightarrow> string \<Rightarrow> ((nat list \<times> jsvalue) list \<times> string) option"
  where
  "parse_value 0 s = None"
| "parse_value (Suc n) s =
     (if starts CHR ''['' s then
        (if starts CHR '']'' (skip_ws (tl s)) then Some (JArray [], tl (skip_ws (tl s)))
         else map_option (\<lambda>(es, r). (JArray es, r)) (parse_elements n [] (skip_ws (tl s))))
      else if starts CHR ''{'' s then
        (if starts CHR ''}'' (skip_ws (tl s)) then Some (JObject [], tl (skip_ws (tl s)))
         else map_option (\<lambda>(ms, r). (JObject ms, r)) (parse_members n [] (skip_ws (tl s))))
      else if starts CHR 0x22 s then
        map_option (\<lambda>(str, r). (JString str, r)) (parse_chars (tl s))
      else if take 4 s = ''null'' then Some (JNull, drop 4 s)
      else if take 4 s = ''true'' then Some (JBool True, drop 4 s)
      else if take 5 s = ''false'' then Some (JBool False, drop 5 s)
      else map_option (\<lambda>(x, r). (JNumber x, r)) (parse_number s))"
| "parse_elements 0 acc s = None"
| "parse_elements (Suc n) acc s =
     (case parse_value n s of
        None \<Rightarrow> None
      | Some (v, r) \<Rightarrow>
          if starts CHR '','' (skip_ws r) then parse_elements n (acc @ [v]) (skip_ws (tl (skip_ws r)))
          else if starts CHR '']'' (skip_ws r) then Some (acc @ [v], tl (skip_ws r))
          else None)"
| "parse_members 0 acc s = None"
| "parse_members (Suc n) acc s =
     (if \<not> starts CHR 0x22 s then None
      else
        (case parse_chars (tl s) of
           None \<Rightarrow> None
         | Some (k, r) \<Rightarrow>
             if \<not> starts CHR '':'' (skip_ws r) then None
             else
               (case parse_value n (skip_ws (tl (skip_ws r))) of
                  None \<Rightarrow> None
                | Some (v, r') \<Rightarrow>
                    if starts CHR '','' (skip_ws r')
                    then parse_members n (acc @ [(k, v)]) (skip_ws (tl (skip_ws r')))
                    else if starts CHR ''}'' (skip_ws r') then Some (acc @ [(k, v)], tl (skip_ws r'))
                    else None)))"

definition JSON_parse :: "string \<Rightarrow> SyntaxError + jsvalue" where
  "JSON_parse text =
     (case parse_value (2 * length text + 2) (skip_ws text) of
        None \<Rightarrow> Inl SyntaxError
      | Some (v, r) \<Rightarrow> if skip_ws r = [] then Inr v else Inl SyntaxError)"

text \<open>
  \<^verbatim>\<open>JSON.stringify(widgets)\<close> for an array: the serialisations of its elements,
  separated by commas, in brackets. How one widget object is written (its property
  names, the quoting of strings, the decimal form of numbers) is the parameter
  \<open>stringify_widget\<close>.
\<close>

fun join_commas :: "string list \<Rightarrow> string" where
  "join_commas [] = []"
| "join_commas [x] = x"
| "join_commas (x # y # ys) = x @ '','' @ join_commas (y # ys)"

definition saveLayout :: "(Widget \<Rightarrow> string) \<Rightarrow> Widget list \<Rightarrow> string" where
  "saveLayout stringify_widget widgets =
     ''['' @ join_commas (map stringify_widget widgets) @ '']''"

text \<open>
  The effect that loads the layout at mount. \<open>savedLayout\<close> is what
  \<^verbatim>\<open>localStorage.getItem('dashboardLayout')\<close> returns (\<open>None\<close> for \<^verbatim>\<open>null\<close>); an absent
  or empty string is falsy. The result is the value of the \<^verbatim>\<open>widgets\<close> state after the
  effect (it starts as the empty array, and \<^verbatim>\<open>setWidgets\<close> stores whatever
  \<^verbatim>\<open>JSON.parse\<close> returned) and what was written to the console.
\<close>

datatype LogEntry = LoadFailed SyntaxError

definition loadLayout :: "string option \<Rightarrow> jsvalue \<times> LogEntry list" where
  "loadLayout savedLayout =
     (case savedLayout of
        None \<Rightarrow> (JArray [], [])
      | Some text \<Rightarrow>
          if text = [] then (JArray [], [])
          else
            (case JSON_parse text of
               Inl e \<Rightarrow> (JArray [], [LoadFailed e])
             | Inr v \<Rightarrow> (v, [])))"


section \<open>Properties of the layout manager\<close>

lemma template_size_nonneg:
  "0 \<le> width (tsize (WIDGET_TEMPLATES t)) \<and> 0 \<le> height (tsize (WIDGET_TEMPLATES t))"
  by (cases t) simp_all

lemma layout_inv_addWidget:
  "layout_inv ws \<Longrightarrow> layout_inv (addWidget t now r ws)"
  using template_size_nonneg [of t]
  by (cases r) (simp_all add: layout_inv_def addWidget_def widget_nonneg_def Let_def)

lemma layout_inv_removeWidget:
  "layout_inv ws \<Longrightarrow> layout_inv (removeWidget i ws)"
  by (induction ws) (simp_all add: layout_inv_def removeWidget_def)

lemma layout_inv_moveWidget:
  "layout_inv ws \<Longrightarrow> layout_inv (moveWidget i x y ws)"
  by (induction ws) (simp_all add: layout_inv_def moveWidget_def widget_nonneg_def Let_def)

lemma layout_inv_toggleMaximize:
  "layout_inv ws \<Longrightarrow> layout_inv (toggleMaximize i ws)"
  by (induction ws) (simp_all add: layout_inv_def toggleMaximize_def widget_nonneg_def)

lemma layout_inv_resizeWidget:
  "layout_inv ws \<Longrightarrow> 0 \<le> w \<Longrightarrow> 0 \<le> h \<Longrightarrow> layout_inv (resizeWidget i w h ws)"
  by (induction ws) (simp_all add: layout_inv_def resizeWidget_def widget_nonneg_def)

text \<open>
  Claim C4. After \<^verbatim>\<open>moveWidget(id, x, y)\<close>, for inputs of any sign, the collection has
  the same length, every widget with that id has the stored position
  \<open>(max 0 x, max 0 y)\<close> (all its other fields as before), so both coordinates are
  non-negative, and every widget with another id is unchanged.
\<close>

theorem moveWidget_clamps_position:
  "length (moveWidget i x y ws) = length ws \<and>
   (\<forall>k < length ws.
      (wid (ws ! k) = i \<longrightarrow>
         moveWidget i x y ws ! k = (ws ! k)\<lparr>position := \<lparr>posx = max 0 x, posy = max 0 y\<rparr>\<rparr> \<and>
         0 \<le> posx (position (moveWidget i x y ws ! k)) \<and>
         0 \<le> posy (position (moveWidget i x y ws ! k))) \<and>
      (wid (ws ! k) \<noteq> i \<longrightarrow> moveWidget i x y ws ! k = ws ! k))"
  by (simp add: moveWidget_def Let_def)

theorem moveWidget_clamps_position_witness:
  "length (moveWidget ''a'' (-5) 7 [sample_widget ''a'', sample_widget ''b'']) = 2 \<and>
   position (moveWidget ''a'' (-5) 7 [sample_widget ''a'', sample_widget ''b''] ! 0)
     = \<lparr>posx = 0, posy = 7\<rparr> \<and>
   moveWidget ''a'' (-5) 7 [sample_widget ''a'', sample_widget ''b''] ! 1 = sample_widget ''b''"
  using moveWidget_clamps_position [of "''a''" "-5" 7 "[sample_widget ''a'', sample_widget ''b'']"]
  by (simp add: sample_widget_def)

text \<open>
  Claim C5, as stated, fails: \<^verbatim>\<open>resizeWidget\<close> stores the width and height it is given,
  so a negative argument breaks the invariant.
\<close>

theorem resizeWidget_negative_counterexample:
  "layout_inv [sample_widget ''a''] \<and>
   \<not> layout_inv (resizeWidget ''a'' (-1) 300 [sample_widget ''a''])"
  by (simp add: layout_inv_def widget_nonneg_def resizeWidget_def sample_widget_def)

text \<open>
  Claim C5, amended. The empty collection satisfies the invariant (positions and sizes
  non-negative); \<^verbatim>\<open>addWidget\<close>, \<^verbatim>\<open>removeWidget\<close>, \<^verbatim>\<open>moveWidget\<close> and
  \<^verbatim>\<open>toggleMaximize\<close> preserve it for arbitrary arguments, negative ones included;
  \<^verbatim>\<open>resizeWidget\<close> preserves it when the width and height it is given are non-negative.
\<close>

theorem layout_invariant_preserved:
  "layout_inv [] \<and>
   (layout_inv ws \<longrightarrow>
      layout_inv (addWidget t now r ws) \<and>
      layout_inv (removeWidget i ws) \<and>
      layout_inv (moveWidget i x y ws) \<and>
      layout_inv (toggleMaximize i ws) \<and>
      (0 \<le> w \<and> 0 \<le> h \<longrightarrow> layout_inv (resizeWidget i w h ws)))"
  by (simp add: layout_inv_addWidget layout_inv_removeWidget layout_inv_moveWidget
      layout_inv_toggleMaximize layout_inv_resizeWidget)
    (simp add: layout_inv_def)

theorem layout_invariant_preserved_witness:
  "layout_inv [sample_widget ''a''] \<and>
   layout_inv (addWidget News 17 (Some 300) [sample_widget ''a'']) \<and>
   layout_inv (removeWidget ''a'' [sample_widget ''a'']) \<and>
   layout_inv (moveWidget ''a'' (-40) (-2) [sample_widget ''a'']) \<and>
   layout_inv (toggleMaximize ''a'' [sample_widget ''a'']) \<and>
   layout_inv (resizeWidget ''a'' 0 12 [sample_widget ''a''])"
proof -
  have inv: "layout_inv [sample_widget ''a'']"
    by (simp add: layout_inv_def widget_nonneg_def sample_widget_def)
  show ?thesis
    using inv
      layout_invariant_preserved [of "[sample_widget ''a'']" News 17 "Some 300" "''a''" "-40" "-2" 0 12]
    by simp
qed




section \<open>Properties of the ticker normaliser\<close>

lemma endsWith_append: "endsWith (xs @ suf) suf"
  by (simp add: endsWith_def)

lemma endsWith_split: "endsWith t ''-USD'' \<Longrightarrow> t = ticker_base t @ ''-USD''"
proof -
  assume "endsWith t ''-USD''"
  then have "drop (length t - 4) t = ''-USD''" by (simp add: endsWith_def eval_nat_numeral)
  then show ?thesis
    using append_take_drop_id [of "length t - 4" t] by (simp add: ticker_base_def)
qed

lemma includes_hyphen: "includes_str ''-'' s = (CHR ''-'' \<in> set s)"
  by (induction s) auto

lemma canonical_form: "convertTickerFormat s = ''*'' \<or> endsWith (convertTickerFormat s) ''-USD''"
  by (auto simp: convertTickerFormat_def Let_def matches_canonical_def endsWith_append)

lemma star_only: "convertTickerFormat s = ''*'' \<longleftrightarrow> s = ''*''"
proof
  assume a: "convertTickerFormat s = ''*''"
  show "s = ''*''"
  proof (rule ccontr)
    assume "s \<noteq> ''*''"
    then have "endsWith (convertTickerFormat s) ''-USD''"
      by (auto simp: convertTickerFormat_def Let_def matches_canonical_def endsWith_append)
    with a show False by (simp add: endsWith_def)
  qed
next
  assume "s = ''*''" then show "convertTickerFormat s = ''*''"
    by (simp add: convertTickerFormat_def matches_canonical_def)
qed

lemma replace_first_append_quote:
  "replace_first ''X:'' [] (p @ ''-USD'') = replace_first ''X:'' [] p @ ''-USD''"
proof (induction p)
  case Nil then show ?case by simp
next
  case (Cons c cs)
  show ?case
  proof (cases cs)
    case Nil then show ?thesis by simp
  next
    case (Cons d ds)
    with Cons.IH show ?thesis by simp
  qed
qed

lemma remove_quote_suffix_append: "remove_quote_suffix (q @ ''-USD'') = q @ ''-''"
  by (simp add: remove_quote_suffix_def endsWith_def)

lemma replace_first_length: "length (replace_first ''X:'' [] p) \<le> length p"
  by (induction p) auto

lemma replace_first_same_length:
  "length (replace_first ''X:'' [] p) = length p \<Longrightarrow> replace_first ''X:'' [] p = p"
  by (induction p) (auto split: if_splits)

lemma replace_first_fixed: "replace_first ''X:'' [] p = p \<longleftrightarrow> \<not> includes_str ''X:'' p"
proof (induction p)
  case Nil then show ?case by simp
next
  case (Cons c cs)
  have "length (drop 2 (c # cs)) < length (c # cs)" by simp
  then have "drop 2 (c # cs) \<noteq> c # cs" by (metis less_irrefl)
  with Cons show ?case by auto
qed

lemma noncanonical_step:
  assumes "\<not> matches_canonical (p @ ''-USD'')"
  shows "convertTickerFormat (p @ ''-USD'') =
         takeWhile (\<lambda>c. c \<noteq> CHR ''-'') (replace_first ''X:'' [] p) @ ''-USD''"
proof -
  have ne: "p @ ''-USD'' \<noteq> ''*''" by (cases p) auto
  have e: "\<not> endsWith (q @ ''-'') ''-USD''" for q
    by (simp add: endsWith_def)
  have tw: "takeWhile (\<lambda>c. c \<noteq> CHR ''-'') (q @ ''-'') = takeWhile (\<lambda>c. c \<noteq> CHR ''-'') q" for q
    by (induction q) auto
  show ?thesis
    using assms ne
    by (simp add: convertTickerFormat_def Let_def replace_first_append_quote
        remove_quote_suffix_append includes_hyphen e tw del: replace_first.simps)
qed

lemma canonical_base_clean:
  assumes "matches_canonical t"
  shows "\<not> includes_str ''-'' (ticker_base t) \<and> \<not> includes_str ''X:'' (ticker_base t)"
proof -
  have up: "list_all is_upper (ticker_base t)"
    using assms by (simp add: matches_canonical_def ticker_base_def)
  have a: "list_all is_upper q \<Longrightarrow> CHR ''-'' \<notin> set q" for q
    by (induction q) (auto simp: is_upper_def)
  have b: "list_all is_upper q \<Longrightarrow> \<not> includes_str ''X:'' q" for q
  proof (induction q)
    case Nil then show ?case by simp
  next
    case (Cons c cs)
    then show ?case by (cases cs) (auto simp: is_upper_def)
  qed
  show ?thesis using up a b by (simp add: includes_hyphen)
qed

lemma takeWhile_eq_self:
  "takeWhile P (replace_first ''X:'' [] p) = p \<longleftrightarrow> (replace_first ''X:'' [] p = p \<and> (\<forall>c\<in>set p. P c))"
proof
  assume a: "takeWhile P (replace_first ''X:'' [] p) = p"
  have "length (takeWhile P (replace_first ''X:'' [] p)) \<le> length (replace_first ''X:'' [] p)"
    by (rule length_takeWhile_le)
  with a replace_first_length [of p] have "length (replace_first ''X:'' [] p) = length p"
    by simp
  then have r: "replace_first ''X:'' [] p = p" by (rule replace_first_same_length)
  with a have "takeWhile P p = p" by simp
  then have "\<forall>c\<in>set p. P c" by (simp add: takeWhile_eq_all_conv)
  with r show "replace_first ''X:'' [] p = p \<and> (\<forall>c\<in>set p. P c)" by simp
next
  assume "replace_first ''X:'' [] p = p \<and> (\<forall>c\<in>set p. P c)"
  then show "takeWhile P (replace_first ''X:'' [] p) = p" by (simp add: takeWhile_eq_all_conv)
qed

lemma idem_char:
  assumes "endsWith t ''-USD''"
  shows "convertTickerFormat t = t \<longleftrightarrow>
         (\<not> includes_str ''-'' (ticker_base t) \<and> \<not> includes_str ''X:'' (ticker_base t))"
proof (cases "matches_canonical t")
  case True
  then show ?thesis using canonical_base_clean [OF True]
    by (simp add: convertTickerFormat_def)
next
  case False
  have t: "t = ticker_base t @ ''-USD''"
    using endsWith_split [OF assms] .
  have "convertTickerFormat t =
        takeWhile (\<lambda>c. c \<noteq> CHR ''-'') (replace_first ''X:'' [] (ticker_base t)) @ ''-USD''"
    using noncanonical_step [of "ticker_base t"] False t by simp
  then have "convertTickerFormat t = t \<longleftrightarrow>
        takeWhile (\<lambda>c. c \<noteq> CHR ''-'') (replace_first ''X:'' [] (ticker_base t)) = ticker_base t"
    using t by (metis append_same_eq)
  then show ?thesis
    by (auto simp: takeWhile_eq_self replace_first_fixed includes_hyphen)
qed


section \<open>Properties of the subscription multiplexer\<close>

lemma emit_fields [simp]:
  "sharedWsClient (emit es s) = sharedWsClient s"
  "isConnected (emit es s) = isConnected s"
  "isAuthenticated (emit es s) = isAuthenticated s"
  "currentSubscriptions (emit es s) = currentSubscriptions s"
  "apiKeyRef (emit es s) = apiKeyRef s"
  "connectingPromise (emit es s) = connectingPromise s"
  "pendingSubscriptions (emit es s) = pendingSubscriptions s"
  "reconnectAttempts (emit es s) = reconnectAttempts s"
  "reconnectTimer (emit es s) = reconnectTimer s"
  "isAddingNewSubscription (emit es s) = isAddingNewSubscription s"
  "statusUpdateHandlers (emit es s) = statusUpdateHandlers s"
  "subscribers (emit es s) = subscribers s"
  "effects (emit es s) = effects s @ es"
  by (simp_all add: emit_def)

lemma updateAll_fields [simp]:
  "sharedWsClient (updateAllStatusExceptNew st ex s) = sharedWsClient s"
  "isConnected (updateAllStatusExceptNew st ex s) = isConnected s"
  "isAuthenticated (updateAllStatusExceptNew st ex s) = isAuthenticated s"
  "currentSubscriptions (updateAllStatusExceptNew st ex s) = currentSubscriptions s"
  "apiKeyRef (updateAllStatusExceptNew st ex s) = apiKeyRef s"
  "connectingPromise (updateAllStatusExceptNew st ex s) = connectingPromise s"
  "pendingSubscriptions (updateAllStatusExceptNew st ex s) = pendingSubscriptions s"
  "reconnectAttempts (updateAllStatusExceptNew st ex s) = reconnectAttempts s"
  "reconnectTimer (updateAllStatusExceptNew st ex s) = reconnectTimer s"
  "isAddingNewSubscription (updateAllStatusExceptNew st ex s) = isAddingNewSubscription s"
  "statusUpdateHandlers (updateAllStatusExceptNew st ex s) = statusUpdateHandlers s"
  "subscribers (updateAllStatusExceptNew st ex s) = subscribers s"
  by (simp_all add: updateAllStatusExceptNew_def split: option.splits)

lemma sent_frames_simps [simp]:
  "sent_frames (emit es s) = sent_frames s @ concat (map frame_of es)"
  "sent_frames (updateAllStatusExceptNew st ex s) = sent_frames s"
  "sent_frames (s\<lparr>subscribers := sb\<rparr>) = sent_frames s"
  "sent_frames (s\<lparr>pendingSubscriptions := ps\<rparr>) = sent_frames s"
  "sent_frames (s\<lparr>currentSubscriptions := cs\<rparr>) = sent_frames s"
  "sent_frames (s\<lparr>isAddingNewSubscription := b\<rparr>) = sent_frames s"
  "sent_frames (s\<lparr>reconnectTimer := rt\<rparr>) = sent_frames s"
  by (simp_all add: sent_frames_def updateAllStatusExceptNew_def emit_def split: option.splits)

lemma set_delete_simps [simp]:
  "set (set_delete x xs) = set xs - {x}"
  "distinct xs \<Longrightarrow> distinct (set_delete x xs)"
  by (simp_all add: set_delete_def distinct_removeAll)

lemma unsub_keep:
  assumes "listeners_of s (convertTickerFormat t) = cbs" "set cbs = {cb1, cb2}" "cb1 \<noteq> cb2"
  shows "sent_frames (unsubscribeTicker t cb1 s) = sent_frames s"
    "currentSubscriptions (unsubscribeTicker t cb1 s) = currentSubscriptions s"
    "sharedWsClient (unsubscribeTicker t cb1 s) = sharedWsClient s"
    "isAuthenticated (unsubscribeTicker t cb1 s) = isAuthenticated s"
    "set (listeners_of (unsubscribeTicker t cb1 s) (convertTickerFormat t)) = {cb2}"
    "map fst (subscribers (unsubscribeTicker t cb1 s)) = map fst (subscribers s)"
proof -
  let ?k = "convertTickerFormat t"
  obtain cbs0 where m: "map_of (subscribers s) ?k = Some cbs0" and c: "cbs0 = cbs"
    using assms by (auto simp: listeners_of_def split: option.splits)
  have ne: "set_delete cb1 cbs0 \<noteq> []"
    using assms c by (metis Diff_iff empty_iff insertI1 insert_commute list.set(1) set_delete_simps(1) singletonD)
  have nonempty: "AList.update ?k (set_delete cb1 cbs0) (subscribers s) \<noteq> []"
    by (cases "subscribers s") auto
  show "sent_frames (unsubscribeTicker t cb1 s) = sent_frames s"
    using m ne nonempty by (simp add: unsubscribeTicker_def Let_def)
  show "currentSubscriptions (unsubscribeTicker t cb1 s) = currentSubscriptions s"
    using m ne nonempty by (simp add: unsubscribeTicker_def Let_def)
  show "sharedWsClient (unsubscribeTicker t cb1 s) = sharedWsClient s"
    using m ne nonempty by (simp add: unsubscribeTicker_def Let_def)
  show "isAuthenticated (unsubscribeTicker t cb1 s) = isAuthenticated s"
    using m ne nonempty by (simp add: unsubscribeTicker_def Let_def)
  show "set (listeners_of (unsubscribeTicker t cb1 s) ?k) = {cb2}"
    using m ne nonempty assms c
    by (auto simp add: unsubscribeTicker_def Let_def listeners_of_def update_conv')
  show "map fst (subscribers (unsubscribeTicker t cb1 s)) = map fst (subscribers s)"
    using m ne nonempty
    by (simp add: unsubscribeTicker_def Let_def update_keys map_of_eq_None_iff[symmetric] del: map_of_eq_None_iff)
qed

lemma list_all_update:
  "list_all P al \<Longrightarrow> P (k, v) \<Longrightarrow> list_all P (AList.update k v al)"
  by (induction al) auto

lemma list_all_delete:
  "list_all P al \<Longrightarrow> list_all P (AList.delete k al)"
  by (induction al) auto

lemma set_add_simps [simp]:
  "set (set_add x xs) = insert x (set xs)"
  "distinct xs \<Longrightarrow> distinct (set_add x xs)"
  by (auto simp: set_add_def)

lemma listeners_distinct:
  "list_all (\<lambda>entry. distinct (snd entry)) (subscribers s) \<Longrightarrow> distinct (listeners_of s k)"
proof -
  assume a: "list_all (\<lambda>entry. distinct (snd entry)) (subscribers s)"
  show ?thesis
  proof (cases "map_of (subscribers s) k")
    case None then show ?thesis by (simp add: listeners_of_def)
  next
    case (Some cbs)
    then have "(k, cbs) \<in> set (subscribers s)" by (rule map_of_SomeD)
    with a have "distinct cbs" by (auto simp: list_all_iff)
    with Some show ?thesis by (simp add: listeners_of_def)
  qed
qed

lemma setup_fields [simp]:
  "isConnected (setupWebSocket cr k h s) = isConnected s"
  "isAuthenticated (setupWebSocket cr k h s) = isAuthenticated s"
  "currentSubscriptions (setupWebSocket cr k h s) = currentSubscriptions s"
  "pendingSubscriptions (setupWebSocket cr k h s) = pendingSubscriptions s"
  "reconnectAttempts (setupWebSocket cr k h s) = reconnectAttempts s"
  "reconnectTimer (setupWebSocket cr k h s) = reconnectTimer s"
  "isAddingNewSubscription (setupWebSocket cr k h s) = isAddingNewSubscription s"
  "statusUpdateHandlers (setupWebSocket cr k h s) = statusUpdateHandlers s"
  "subscribers (setupWebSocket cr k h s) = subscribers s"
  "sent_frames (setupWebSocket cr k h s) = sent_frames s"
  by (simp_all add: setupWebSocket_def Let_def sent_frames_def updateAllStatusExceptNew_def emit_def split: option.splits)

lemma registry_wf_cong:
  "currentSubscriptions s' = currentSubscriptions s \<Longrightarrow>
   pendingSubscriptions s' = pendingSubscriptions s \<Longrightarrow>
   subscribers s' = subscribers s \<Longrightarrow> registry_wf s' = registry_wf s"
  by (simp add: registry_wf_def)

lemma wf_subscribeTicker:
  assumes "registry_wf s"
  shows "registry_wf (subscribeTicker cr t cb h m s)"
proof -
  let ?k = "convertTickerFormat t"
  have d: "distinct (listeners_of s ?k)"
    using assms by (simp add: registry_wf_def listeners_distinct)
  have l: "listeners_of (emit es (s\<lparr>isAddingNewSubscription := b\<rparr>)) ?k = listeners_of s ?k" for es b
    by (simp add: listeners_of_def)
  show ?thesis
    using assms d
    by (auto simp: subscribeTicker_def Let_def registry_wf_def l distinct_update list_all_update
        socket_ready_def set_add_def set_delete_def distinct_removeAll split: option.splits)
qed

lemma count_list_distinct:
  "distinct xs \<Longrightarrow> count_list xs x = (if x \<in> set xs then 1 else 0)"
  by (induction xs) auto

lemma listeners_of_frame [simp]:
  "listeners_of (emit es s) k = listeners_of s k"
  "listeners_of (s\<lparr>isAddingNewSubscription := b\<rparr>) k = listeners_of s k"
  "listeners_of (s\<lparr>pendingSubscriptions := ps\<rparr>) k = listeners_of s k"
  "listeners_of (s\<lparr>currentSubscriptions := cs\<rparr>) k = listeners_of s k"
  by (simp_all add: listeners_of_def)

lemma subscribers_subscribeTicker:
  "subscribers (subscribeTicker cr t cb h m s) =
     AList.update (convertTickerFormat t)
       (set_add cb (listeners_of s (convertTickerFormat t))) (subscribers s)"
  by (simp add: subscribeTicker_def Let_def split: option.splits)

lemma listeners_subscribeTicker:
  "listeners_of (subscribeTicker cr t cb h m s) (convertTickerFormat t) =
     set_add cb (listeners_of s (convertTickerFormat t))"
  by (simp add: listeners_of_def subscribers_subscribeTicker update_conv')

lemma current_subscribeTicker:
  "currentSubscriptions (subscribeTicker cr t cb h m s) =
     (if subscription_for (convertTickerFormat t) \<notin> set (currentSubscriptions s) \<and> accepts_frames s
      then currentSubscriptions s @ [subscription_for (convertTickerFormat t)]
      else currentSubscriptions s)"
  by (auto simp: subscribeTicker_def Let_def accepts_frames_def socket_ready_def split: option.splits)

lemma pending_subscribeTicker:
  "pendingSubscriptions (subscribeTicker cr t cb h m s) =
     (if subscription_for (convertTickerFormat t) \<in> set (currentSubscriptions s)
      then pendingSubscriptions s
      else if accepts_frames s
      then set_delete (subscription_for (convertTickerFormat t))
             (set_add (subscription_for (convertTickerFormat t)) (pendingSubscriptions s))
      else set_add (subscription_for (convertTickerFormat t)) (pendingSubscriptions s))"
  by (auto simp: subscribeTicker_def Let_def accepts_frames_def socket_ready_def split: option.splits)

lemma sent_subscribeTicker:
  "sent_frames (subscribeTicker cr t cb h m s) =
     (if subscription_for (convertTickerFormat t) \<notin> set (currentSubscriptions s) \<and> accepts_frames s
      then sent_frames s @ [(''subscribe'', subscription_for (convertTickerFormat t))]
      else sent_frames s)"
  by (auto simp: subscribeTicker_def Let_def accepts_frames_def socket_ready_def split: option.splits)

lemma flush_fields [simp]:
  "pendingSubscriptions (flush_pending ws ps s) = pendingSubscriptions s"
  "subscribers (flush_pending ws ps s) = subscribers s"
  "sharedWsClient (flush_pending ws ps s) = sharedWsClient s"
  "isAuthenticated (flush_pending ws ps s) = isAuthenticated s"
  "isConnected (flush_pending ws ps s) = isConnected s"
  "reconnectAttempts (flush_pending ws ps s) = reconnectAttempts s"
  "reconnectTimer (flush_pending ws ps s) = reconnectTimer s"
  "connectingPromise (flush_pending ws ps s) = connectingPromise s"
  by (induction ps arbitrary: s; simp)+

lemma flush_current_set:
  "set (currentSubscriptions (flush_pending ws ps s)) =
     set (currentSubscriptions s) \<union> (if sendThrows ws then {} else set ps)"
  by (induction ps arbitrary: s) auto

lemma flush_current_distinct:
  "distinct (currentSubscriptions s) \<Longrightarrow> distinct (currentSubscriptions (flush_pending ws ps s))"
  by (induction ps arbitrary: s) auto

lemma wf_pendingTimeout: "registry_wf s \<Longrightarrow> registry_wf (pendingTimeout ws s)"
  by (simp add: registry_wf_def pendingTimeout_def flush_current_distinct)

lemma current_pendingTimeout_set:
  "set (currentSubscriptions (pendingTimeout ws s)) =
     set (currentSubscriptions s) \<union> (if sendThrows ws then {} else set (pendingSubscriptions s))"
  by (simp add: pendingTimeout_def flush_current_set)

lemma registered_subscribeTicker:
  "subscription_for (convertTickerFormat t) \<in>
     set (currentSubscriptions (subscribeTicker cr t cb h m s)) \<union>
     set (pendingSubscriptions (subscribeTicker cr t cb h m s))"
  by (simp add: current_subscribeTicker pending_subscribeTicker)

lemma removeAll_single: "set xs \<subseteq> {x} \<Longrightarrow> removeAll x xs = []"
  by (induction xs) auto


lemma unsub_keep_more:
  assumes "set (listeners_of s (convertTickerFormat t)) = {cb1, cb2}" "cb1 \<noteq> cb2"
  shows "isConnected (unsubscribeTicker t cb1 s) = isConnected s"
    "reconnectAttempts (unsubscribeTicker t cb1 s) = reconnectAttempts s"
    "reconnectTimer (unsubscribeTicker t cb1 s) = reconnectTimer s"
    "connectingPromise (unsubscribeTicker t cb1 s) = connectingPromise s"
    "accepts_frames (unsubscribeTicker t cb1 s) = accepts_frames s"
proof -
  let ?k = "convertTickerFormat t"
  obtain cbs0 where m: "map_of (subscribers s) ?k = Some cbs0" and c: "set cbs0 = {cb1, cb2}"
    using assms by (cases "map_of (subscribers s) ?k") (simp_all add: listeners_of_def)
  have ne: "set_delete cb1 cbs0 \<noteq> []"
    using assms c by (metis Diff_iff empty_iff insertI1 insert_commute list.set(1) set_delete_simps(1) singletonD)
  have nonempty: "AList.update ?k (set_delete cb1 cbs0) (subscribers s) \<noteq> []"
    by (cases "subscribers s") auto
  show "isConnected (unsubscribeTicker t cb1 s) = isConnected s"
    using m ne nonempty by (simp add: unsubscribeTicker_def Let_def)
  show "reconnectAttempts (unsubscribeTicker t cb1 s) = reconnectAttempts s"
    using m ne nonempty by (simp add: unsubscribeTicker_def Let_def)
  show "reconnectTimer (unsubscribeTicker t cb1 s) = reconnectTimer s"
    using m ne nonempty by (simp add: unsubscribeTicker_def Let_def)
  show "connectingPromise (unsubscribeTicker t cb1 s) = connectingPromise s"
    using m ne nonempty by (simp add: unsubscribeTicker_def Let_def)
  show "accepts_frames (unsubscribeTicker t cb1 s) = accepts_frames s"
    using m ne nonempty
    by (simp add: unsubscribeTicker_def Let_def accepts_frames_def socket_ready_def split: option.splits)
qed

lemma unsub_last:
  assumes l: "set (listeners_of s (convertTickerFormat t)) = {cb}"
  shows "sent_frames (unsubscribeTicker t cb s) =
           sent_frames s @
             (if accepts_frames s \<and> subscription_for (convertTickerFormat t) \<in> set (currentSubscriptions s)
              then [(''unsubscribe'', subscription_for (convertTickerFormat t))] else [])"
    and "subscribers (unsubscribeTicker t cb s) = AList.delete (convertTickerFormat t) (subscribers s)"
    and "AList.delete (convertTickerFormat t) (subscribers s) = [] \<and> sharedWsClient s \<noteq> None \<Longrightarrow>
           sharedWsClient (unsubscribeTicker t cb s) = None \<and>
           \<not> isConnected (unsubscribeTicker t cb s) \<and>
           \<not> isAuthenticated (unsubscribeTicker t cb s) \<and>
           currentSubscriptions (unsubscribeTicker t cb s) = [] \<and>
           pendingSubscriptions (unsubscribeTicker t cb s) = [] \<and>
           reconnectAttempts (unsubscribeTicker t cb s) = 0 \<and>
           reconnectTimer (unsubscribeTicker t cb s) = None \<and>
           \<not> isAddingNewSubscription (unsubscribeTicker t cb s) \<and>
           connectingPromise (unsubscribeTicker t cb s) = connectingPromise s \<and>
           last (effects (unsubscribeTicker t cb s)) = CloseSocket"
    and "\<not> (AList.delete (convertTickerFormat t) (subscribers s) = [] \<and> sharedWsClient s \<noteq> None) \<Longrightarrow>
           sharedWsClient (unsubscribeTicker t cb s) = sharedWsClient s \<and>
           isConnected (unsubscribeTicker t cb s) = isConnected s \<and>
           isAuthenticated (unsubscribeTicker t cb s) = isAuthenticated s \<and>
           currentSubscriptions (unsubscribeTicker t cb s) =
             remove1 (subscription_for (convertTickerFormat t)) (currentSubscriptions s) \<and>
           reconnectAttempts (unsubscribeTicker t cb s) = reconnectAttempts s \<and>
           reconnectTimer (unsubscribeTicker t cb s) = reconnectTimer s \<and>
           connectingPromise (unsubscribeTicker t cb s) = connectingPromise s"
proof -
  let ?k = "convertTickerFormat t"
  obtain cbs0 where m: "map_of (subscribers s) ?k = Some cbs0" and c: "set cbs0 = {cb}"
    using l by (cases "map_of (subscribers s) ?k") (simp_all add: listeners_of_def)
  have e: "set_delete cb cbs0 = []"
    using c by (simp add: set_delete_def removeAll_single)
  have du: "AList.delete ?k (AList.update ?k [] (subscribers s)) = AList.delete ?k (subscribers s)"
    by (rule delete_update_same)
  have r: "x \<notin> set xs \<Longrightarrow> remove1 x xs = xs" for x :: string and xs
    by (rule remove1_idem)
  note defs = unsubscribeTicker_def Let_def socket_ready_def accepts_frames_def
  show "sent_frames (unsubscribeTicker t cb s) =
           sent_frames s @
             (if accepts_frames s \<and> subscription_for ?k \<in> set (currentSubscriptions s)
              then [(''unsubscribe'', subscription_for ?k)] else [])"
    using m e du by (auto simp add: defs sent_frames_def emit_def split: option.splits)
  show "subscribers (unsubscribeTicker t cb s) = AList.delete ?k (subscribers s)"
    using m e du by (auto simp add: defs split: option.splits)
  show "AList.delete ?k (subscribers s) = [] \<and> sharedWsClient s \<noteq> None \<Longrightarrow>
           sharedWsClient (unsubscribeTicker t cb s) = None \<and>
           \<not> isConnected (unsubscribeTicker t cb s) \<and>
           \<not> isAuthenticated (unsubscribeTicker t cb s) \<and>
           currentSubscriptions (unsubscribeTicker t cb s) = [] \<and>
           pendingSubscriptions (unsubscribeTicker t cb s) = [] \<and>
           reconnectAttempts (unsubscribeTicker t cb s) = 0 \<and>
           reconnectTimer (unsubscribeTicker t cb s) = None \<and>
           \<not> isAddingNewSubscription (unsubscribeTicker t cb s) \<and>
           connectingPromise (unsubscribeTicker t cb s) = connectingPromise s \<and>
           last (effects (unsubscribeTicker t cb s)) = CloseSocket"
    using m e du by (auto simp add: defs split: option.splits)
  show "\<not> (AList.delete ?k (subscribers s) = [] \<and> sharedWsClient s \<noteq> None) \<Longrightarrow>
           sharedWsClient (unsubscribeTicker t cb s) = sharedWsClient s \<and>
           isConnected (unsubscribeTicker t cb s) = isConnected s \<and>
           isAuthenticated (unsubscribeTicker t cb s) = isAuthenticated s \<and>
           currentSubscriptions (unsubscribeTicker t cb s) =
             remove1 (subscription_for ?k) (currentSubscriptions s) \<and>
           reconnectAttempts (unsubscribeTicker t cb s) = reconnectAttempts s \<and>
           reconnectTimer (unsubscribeTicker t cb s) = reconnectTimer s \<and>
           connectingPromise (unsubscribeTicker t cb s) = connectingPromise s"
    using m e du by (auto simp add: defs r split: option.splits)
qed

lemma listeners_deleted:
  "subscribers s' = AList.delete k (subscribers s) \<Longrightarrow> listeners_of s' k = []"
  by (simp add: listeners_of_def delete_conv')

lemma reconnect_delays_simps [simp]:
  "reconnect_delays (updateAllStatusExceptNew st ex s) = reconnect_delays s"
  "reconnect_delays (setupWebSocket cr k h s) = reconnect_delays s"
  by (simp_all add: reconnect_delays_def updateAllStatusExceptNew_def setupWebSocket_def emit_def Let_def
      split: option.splits)

lemma delays_of_delivers [simp]:
  "concat (map delay_of (concat (map (\<lambda>(ticker, callbacks). map Deliver callbacks) subs))) = []"
proof -
  have a: "concat (map delay_of (map Deliver cbs)) = []" for cbs
    by (induction cbs) auto
  show ?thesis by (induction subs) (auto simp: a)
qed

lemma delays_of_notifications [simp]:
  "concat (map delay_of (map (\<lambda>h. Notify h st) hs)) = []"
  by (induction hs) auto

lemma onclose_schedules:
  assumes "subscribers s \<noteq> []" and "reconnectAttempts s < maxReconnectAttempts"
  shows "reconnectAttempts (ws_onclose h code reason s) = reconnectAttempts s + 1"
    and "reconnectTimer (ws_onclose h code reason s) = Some (min (1000 * 2 ^ reconnectAttempts s) 30000)"
    and "reconnect_delays (ws_onclose h code reason s) =
           reconnect_delays s @ [min (1000 * 2 ^ reconnectAttempts s) 30000]"
    and "sharedWsClient (ws_onclose h code reason s) = None"
    and "\<not> connectingPromise (ws_onclose h code reason s)"
    and "subscribers (ws_onclose h code reason s) = subscribers s"
  using assms
  by (simp_all add: ws_onclose_def Let_def reconnect_delays_def updateAllStatusExceptNew_def emit_def
      split: option.splits)

lemma onclose_gives_up:
  assumes "subscribers s = [] \<or> maxReconnectAttempts \<le> reconnectAttempts s"
  shows "reconnect_delays (ws_onclose h code reason s) = reconnect_delays s"
    and "reconnectAttempts (ws_onclose h code reason s) = reconnectAttempts s"
    and "reconnectTimer (ws_onclose h code reason s) = reconnectTimer s"
    and "sharedWsClient (ws_onclose h code reason s) = None"
    and "\<not> connectingPromise (ws_onclose h code reason s)"
    and "subscribers (ws_onclose h code reason s) = subscribers s"
  using assms
  by (auto simp add: ws_onclose_def Let_def reconnect_delays_def updateAllStatusExceptNew_def emit_def
      split: option.splits)

lemma retry_fields:
  "reconnectAttempts (reconnectTimeout cr h s) = reconnectAttempts s"
  "subscribers (reconnectTimeout cr h s) = subscribers s"
  "reconnect_delays (reconnectTimeout cr h s) = reconnect_delays s"
  by (simp_all add: reconnectTimeout_def)

lemma backoff_nth:
  "k \<le> 4 \<Longrightarrow> min (1000 * 2 ^ k) 30000 = [1000, 2000, 4000, 8000, 16000::nat] ! k"
proof -
  assume "k \<le> 4"
  then consider "k = 0" | "k = 1" | "k = 2" | "k = 3" | "k = 4" by linarith
  then show ?thesis by cases simp_all
qed


lemma frames_of_delivers:
  "concat (map frame_of (concat (map (\<lambda>(ticker, callbacks). map Deliver callbacks) subs))) = []"
proof -
  have a: "concat (map frame_of (map Deliver cbs)) = []" for cbs
    by (induction cbs) auto
  show ?thesis by (induction subs) (auto simp: a)
qed

lemma frames_of_notifications:
  "concat (map frame_of (map (\<lambda>h. Notify h st) hs)) = []"
  by (induction hs) auto

lemma subscribe_auth:
  "isAuthenticated (subscribeTicker cr t cb h m s) = isAuthenticated s"
  by (simp add: subscribeTicker_def Let_def split: option.splits)

lemma backoff_take:
  "take (Suc (Suc k)) [1000, 2000, 4000, 8000, 16000::nat] =
     take (Suc k) [1000, 2000, 4000, 8000, 16000] @
       (if Suc k < 5 then [min (1000 * 2 ^ Suc k) 30000] else [])"
proof (cases "Suc k < 5")
  case True
  then have k: "Suc k \<le> 4" by simp
  have "take (Suc (Suc k)) [1000, 2000, 4000, 8000, 16000::nat] =
        take (Suc k) [1000, 2000, 4000, 8000, 16000] @ [[1000, 2000, 4000, 8000, 16000] ! Suc k]"
    using True by (intro take_Suc_conv_app_nth) simp
  then show ?thesis using True backoff_nth [OF k] by simp
next
  case False
  then show ?thesis by simp
qed

lemma retry_sequence:
  assumes "subscribers s \<noteq> []" and "reconnectAttempts s = 0"
  shows
    "reconnect_delays ((retry_fails cr h code reason ^^ k) (ws_onclose h code reason s)) =
       reconnect_delays s @ take (Suc k) [1000, 2000, 4000, 8000, 16000] \<and>
     reconnectAttempts ((retry_fails cr h code reason ^^ k) (ws_onclose h code reason s)) = min (Suc k) 5 \<and>
     subscribers ((retry_fails cr h code reason ^^ k) (ws_onclose h code reason s)) = subscribers s"
proof (induction k)
  case 0
  have lt: "reconnectAttempts s < maxReconnectAttempts"
    using assms by (simp add: maxReconnectAttempts_def)
  show ?case
    using onclose_schedules [OF assms(1) lt, of h code reason] assms(2) by simp
next
  case (Suc k)
  let ?p = "(retry_fails cr h code reason ^^ k) (ws_onclose h code reason s)"
  let ?q = "reconnectTimeout (Some cr) h ?p"
  from Suc have ih: "reconnect_delays ?p = reconnect_delays s @ take (Suc k) [1000, 2000, 4000, 8000, 16000]"
    "reconnectAttempts ?p = min (Suc k) 5" "subscribers ?p = subscribers s"
    by simp_all
  have sub: "subscribers ?q \<noteq> []" using ih(3) assms(1) by (simp add: retry_fields)
  have e: "(retry_fails cr h code reason ^^ Suc k) (ws_onclose h code reason s) =
           ws_onclose h code reason ?q"
    by (simp add: retry_fails_def)
  show ?case
  proof (cases "Suc k < 5")
    case True
    have lt: "reconnectAttempts ?q < maxReconnectAttempts"
      using ih(2) True by (simp add: retry_fields maxReconnectAttempts_def)
    have at: "reconnectAttempts ?q = Suc k"
      using ih(2) True by (simp add: retry_fields)
    note step = onclose_schedules [OF sub lt, of h code reason]
    show ?thesis
      unfolding e backoff_take
      using step(1) step(3) step(6) ih(1) ih(3) at True by (simp add: retry_fields)
  next
    case False
    have ge: "subscribers ?q = [] \<or> maxReconnectAttempts \<le> reconnectAttempts ?q"
      using ih(2) False by (simp add: retry_fields maxReconnectAttempts_def)
    have at: "reconnectAttempts ?q = 5"
      using ih(2) False by (simp add: retry_fields)
    note step = onclose_gives_up [OF ge, of h code reason]
    show ?thesis
      unfolding e backoff_take
      using step(1) step(2) step(6) ih(1) ih(3) at False by (simp add: retry_fields)
  qed
qed

lemma reconnect_resets:
  "reconnectAttempts (reconnect cr h s) = 0"
  "reconnectTimer (reconnect cr h s) = None"
  by (simp_all add: reconnect_def Let_def)

lemma reconnect_socket:
  "sharedWsClient (reconnect created h s) =
     (if sharedWsClient s \<noteq> None \<or> \<not> connectingPromise s then created else None)"
  by (auto simp: reconnect_def Let_def setupWebSocket_def split: option.splits)

lemma onopen_resets: "reconnectAttempts (ws_onopen ws h k s) = 0"
  by (simp add: ws_onopen_def Let_def)

lemma subscribe_socket:
  "sharedWsClient (subscribeTicker created t cb h m s) =
     (if subscription_for (convertTickerFormat t) \<notin> set (currentSubscriptions s) \<and>
         sharedWsClient s = None \<and> \<not> connectingPromise s
      then created else sharedWsClient s)"
  "reconnectAttempts (subscribeTicker created t cb h m s) = reconnectAttempts s"
  by (auto simp: subscribeTicker_def Let_def setupWebSocket_def split: option.splits)

lemma onclose_fields:
  "sharedWsClient (ws_onclose h code reason s) = None"
  "\<not> connectingPromise (ws_onclose h code reason s)"
  "currentSubscriptions (ws_onclose h code reason s) = currentSubscriptions s"
  "pendingSubscriptions (ws_onclose h code reason s) = pendingSubscriptions s"
  "subscribers (ws_onclose h code reason s) = subscribers s"
  "\<not> isAuthenticated (ws_onclose h code reason s)"
  "sent_frames (ws_onclose h code reason s) = sent_frames s"
  by (simp_all add: ws_onclose_def Let_def sent_frames_def updateAllStatusExceptNew_def emit_def
      frames_of_delivers frames_of_notifications split: option.splits)

lemma retry_fails_fields:
  "sharedWsClient (retry_fails cr h code reason s) = None"
  "\<not> connectingPromise (retry_fails cr h code reason s)"
  "currentSubscriptions (retry_fails cr h code reason s) = currentSubscriptions s"
  by (simp_all add: retry_fails_def onclose_fields reconnectTimeout_def)

lemma retry_run_current:
  "currentSubscriptions ((retry_fails cr h code reason ^^ k) s) = currentSubscriptions s"
  by (induction k) (simp_all add: retry_fails_fields)

lemma ready_state_facts:
  "currentSubscriptions ready_state = [''XT.BTC-USD'']"
  "subscribers ready_state = [(''BTC-USD'', [1])]"
  "reconnectAttempts ready_state = 0"
  "reconnect_delays ready_state = []"
  "sharedWsClient ready_state = Some open_socket"
  "isAuthenticated ready_state"
  "pendingSubscriptions ready_state = []"
  "connectingPromise ready_state"
  "sent_frames ready_state = [(''auth'', ''key''), (''subscribe'', ''XT.BTC-USD'')]"
  by code_simp+

lemma given_up_facts:
  "reconnectAttempts given_up_state = 5"
  "reconnect_delays given_up_state = [1000, 2000, 4000, 8000, 16000]"
  "subscribers given_up_state = [(''BTC-USD'', [1])]"
  "sharedWsClient given_up_state = None"
  "\<not> connectingPromise given_up_state"
  "currentSubscriptions given_up_state = [''XT.BTC-USD'']"
proof -
  have ne: "subscribers ready_state \<noteq> []" by (simp add: ready_state_facts)
  note seq = retry_sequence [OF ne ready_state_facts(3), where cr = new_socket and h = 10 and code = 1006
      and reason = "[]" and k = 5]
  show "reconnectAttempts given_up_state = 5"
    using seq by (simp add: given_up_state_def)
  show "reconnect_delays given_up_state = [1000, 2000, 4000, 8000, 16000]"
    using seq by (simp add: given_up_state_def ready_state_facts)
  show "subscribers given_up_state = [(''BTC-USD'', [1])]"
    using seq by (simp add: given_up_state_def ready_state_facts)
  have e: "given_up_state =
     retry_fails new_socket 10 1006 [] ((retry_fails new_socket 10 1006 [] ^^ 4) (ws_onclose 10 1006 [] ready_state))"
    by (simp add: given_up_state_def eval_nat_numeral)
  show "sharedWsClient given_up_state = None"
    unfolding e by (rule retry_fails_fields)
  show "\<not> connectingPromise given_up_state"
    unfolding e by (rule retry_fails_fields)
  show "currentSubscriptions given_up_state = [''XT.BTC-USD'']"
    by (simp add: given_up_state_def retry_run_current onclose_fields ready_state_facts)
qed


lemma unsubscribe_removes_listener:
  "cb \<notin> set (listeners_of (unsubscribeTicker t cb s) (convertTickerFormat t))"
proof (cases "map_of (subscribers s) (convertTickerFormat t)")
  case None
  then show ?thesis by (simp add: unsubscribeTicker_def Let_def listeners_of_def)
next
  case (Some cbs0)
  show ?thesis
  proof (cases "set_delete cb cbs0 = []")
    case True
    with Some show ?thesis
      by (simp add: unsubscribeTicker_def Let_def listeners_of_def delete_conv' delete_update_same
          split: option.splits)
  next
    case False
    have ne: "AList.update (convertTickerFormat t) (set_delete cb cbs0) (subscribers s) \<noteq> []"
      by (cases "subscribers s") auto
    from Some False ne show ?thesis
      by (simp add: unsubscribeTicker_def Let_def listeners_of_def update_conv')
  qed
qed

lemma wf_unsubscribeTicker:
  assumes "registry_wf s"
  shows "registry_wf (unsubscribeTicker t cb s)"
proof (cases "map_of (subscribers s) (convertTickerFormat t)")
  case None
  then show ?thesis using assms
    by (auto simp: unsubscribeTicker_def Let_def registry_wf_def)
next
  case (Some cbs0)
  then have "(convertTickerFormat t, cbs0) \<in> set (subscribers s)" by (rule map_of_SomeD)
  then have d: "distinct cbs0" using assms by (auto simp: registry_wf_def list_all_iff)
  have r: "set (remove1 x xs) \<subseteq> set xs" for x :: string and xs
    by (rule set_remove1_subset)
  have dis: "A \<inter> B = {} \<Longrightarrow> A' \<subseteq> A \<Longrightarrow> B' \<subseteq> B \<Longrightarrow> A' \<inter> B' = {}" for A B A' B' :: "string set"
    by blast
  have p: "set (pendingSubscriptions s) - {x} \<subseteq> set (pendingSubscriptions s)" for x by blast
  show ?thesis
    using assms Some d
    by (auto simp: unsubscribeTicker_def Let_def registry_wf_def distinct_update distinct_delete
        list_all_update list_all_delete socket_ready_def
        dest: dis [OF _ p r] split: option.splits)
qed

lemma wf_events:
  assumes "registry_wf s"
  shows "registry_wf (ws_onopen ws h k s)"
    and "registry_wf (ws_onclose h code reason s)"
    and "registry_wf (reconnectTimeout cr h s)"
    and "registry_wf (ws_onmessage_auth_success ws h s)"
    and "registry_wf (silentTimeout s)"
    and "registry_wf (reconnect cr h s)"
    and "registry_wf (registerStatusUpdateHandler h s)"
    and "registry_wf (unregisterStatusUpdateHandler h s)"
  using assms
  by (simp_all add: registry_wf_def ws_onopen_def onclose_fields reconnectTimeout_def
      ws_onmessage_auth_success_def processPendingSubscriptions_def silentTimeout_def
      reconnect_def registerStatusUpdateHandler_def unregisterStatusUpdateHandler_def Let_def)

lemma wf_initial: "registry_wf initial_state"
  by (simp add: registry_wf_def initial_state_def)

lemma flush_sent:
  "\<not> sendThrows ws \<Longrightarrow> distinct ps \<Longrightarrow> set ps \<inter> set (currentSubscriptions s) = {} \<Longrightarrow>
   sent_frames (flush_pending ws ps s) = sent_frames s @ map (Pair ''subscribe'') ps \<and>
   currentSubscriptions (flush_pending ws ps s) = currentSubscriptions s @ ps"
  by (induction ps arbitrary: s) auto

lemma pendingTimeout_sent:
  "registry_wf s \<Longrightarrow> \<not> sendThrows ws \<Longrightarrow>
   sent_frames (pendingTimeout ws s) = sent_frames s @ map (Pair ''subscribe'') (pendingSubscriptions s)"
  by (simp add: pendingTimeout_def registry_wf_def flush_sent)

lemma two_listener_facts:
  "sharedWsClient two_listener_state = Some open_socket"
  "isAuthenticated two_listener_state"
  "currentSubscriptions two_listener_state = [''XT.BTC-USD'']"
  "listeners_of two_listener_state ''BTC-USD'' = [1, 2]"
  "subscribers two_listener_state = [(''BTC-USD'', [1, 2])]"
  "sent_frames two_listener_state = [(''auth'', ''key''), (''subscribe'', ''XT.BTC-USD'')]"
  "accepts_frames two_listener_state"
  by code_simp+

lemma btc_canonical: "convertTickerFormat ''BTC-USD'' = ''BTC-USD''"
  by code_simp

lemma eth_canonical: "convertTickerFormat ''ETH-USD'' = ''ETH-USD''"
  by code_simp







text \<open>
  Outside what claim C2 says of frames and of the teardown: the pending set is not
  counted per listener, so when one of two listeners unsubscribes while the
  subscription is still queued, the queued subscription is dropped although the other
  listener remains, and the flush that follows the authentication sends nothing.
\<close>

lemma unsubscribe_one_drops_pending:
  "pendingSubscriptions
     (subscribeTicker (Some new_socket) ''BTC-USD'' 2 11 False
        (subscribeTicker (Some new_socket) ''BTC-USD'' 1 10 False initial_state))
     = [''XT.BTC-USD''] \<and>
   pendingSubscriptions
     (unsubscribeTicker ''BTC-USD'' 1
        (subscribeTicker (Some new_socket) ''BTC-USD'' 2 11 False
           (subscribeTicker (Some new_socket) ''BTC-USD'' 1 10 False initial_state)))
     = [] \<and>
   listeners_of
     (unsubscribeTicker ''BTC-USD'' 1
        (subscribeTicker (Some new_socket) ''BTC-USD'' 2 11 False
           (subscribeTicker (Some new_socket) ''BTC-USD'' 1 10 False initial_state)))
     ''BTC-USD'' = [2] \<and>
   sent_frames
     (pendingTimeout open_socket
        (unsubscribeTicker ''BTC-USD'' 1
           (subscribeTicker (Some new_socket) ''BTC-USD'' 2 11 False
              (subscribeTicker (Some new_socket) ''BTC-USD'' 1 10 False initial_state))))
     = []"
  by code_simp





section \<open>The canonical form of tickers\<close>

text \<open>
  Claim C10, as stated, fails: the normaliser is not idempotent on every string. A
  second \<^verbatim>\<open>X:\<close> prefix survives the first pass and is removed by the second.
\<close>

theorem convertTickerFormat_idempotence_counterexample:
  "convertTickerFormat ''X:X:BTC'' = ''X:BTC-USD'' \<and>
   convertTickerFormat (convertTickerFormat ''X:X:BTC'') = ''BTC-USD''"
  by code_simp

text \<open>
  Claim C10, amended. For every input string \<open>s\<close>: the result is the wildcard \<^verbatim>\<open>*\<close>
  exactly when \<open>s\<close> is the wildcard, and otherwise it ends in \<^verbatim>\<open>-USD\<close>; normalising
  the result again gives the same string exactly when \<open>s\<close> is the wildcard or the part
  of the result before its final \<^verbatim>\<open>-USD\<close> contains neither a hyphen nor \<^verbatim>\<open>X:\<close>, which
  is so whenever the result has the canonical shape of capital letters followed by
  \<^verbatim>\<open>-USD\<close>; and a subscribe followed by an unsubscribe with the same raw ticker string
  address the same registry entry, the one keyed by the normalised ticker: the
  subscribe puts the listener there and the unsubscribe takes it out of there.
\<close>

theorem convertTickerFormat_canonical_form:
  "(convertTickerFormat s = ''*'') = (s = ''*'') \<and>
   (s \<noteq> ''*'' \<longrightarrow> endsWith (convertTickerFormat s) ''-USD'') \<and>
   ((convertTickerFormat (convertTickerFormat s) = convertTickerFormat s) =
      (s = ''*'' \<or>
       (\<not> includes_str ''-'' (ticker_base (convertTickerFormat s)) \<and>
        \<not> includes_str ''X:'' (ticker_base (convertTickerFormat s))))) \<and>
   (matches_canonical (convertTickerFormat s) \<longrightarrow>
      convertTickerFormat (convertTickerFormat s) = convertTickerFormat s) \<and>
   cb \<in> set (listeners_of (subscribeTicker created s cb h m st) (convertTickerFormat s)) \<and>
   cb \<notin> set (listeners_of (unsubscribeTicker s cb (subscribeTicker created s cb h m st))
              (convertTickerFormat s))"
proof -
  have a: "(convertTickerFormat s = ''*'') = (s = ''*'')" by (rule star_only)
  have b: "s \<noteq> ''*'' \<longrightarrow> endsWith (convertTickerFormat s) ''-USD''"
    using canonical_form [of s] a by blast
  have c: "(convertTickerFormat (convertTickerFormat s) = convertTickerFormat s) =
      (s = ''*'' \<or>
       (\<not> includes_str ''-'' (ticker_base (convertTickerFormat s)) \<and>
        \<not> includes_str ''X:'' (ticker_base (convertTickerFormat s))))"
  proof (cases "s = ''*''")
    case True
    then have "convertTickerFormat s = ''*''" using a by simp
    then show ?thesis using True by simp
  next
    case False
    with b have "endsWith (convertTickerFormat s) ''-USD''" by simp
    from idem_char [OF this] False show ?thesis by simp
  qed
  have d: "matches_canonical (convertTickerFormat s) \<longrightarrow>
      convertTickerFormat (convertTickerFormat s) = convertTickerFormat s"
    by (simp add: convertTickerFormat_def)
  have e: "cb \<in> set (listeners_of (subscribeTicker created s cb h m st) (convertTickerFormat s))"
    by (simp add: listeners_subscribeTicker)
  have f: "cb \<notin> set (listeners_of (unsubscribeTicker s cb (subscribeTicker created s cb h m st))
              (convertTickerFormat s))"
    by (rule unsubscribe_removes_listener)
  show ?thesis using a b c d e f by (intro conjI)
qed

theorem convertTickerFormat_canonical_form_witness:
  "convertTickerFormat ''X:BTCUSD'' = ''BTC-USD'' \<and>
   endsWith (convertTickerFormat ''X:BTCUSD'') ''-USD'' \<and>
   convertTickerFormat (convertTickerFormat ''X:BTCUSD'') = convertTickerFormat ''X:BTCUSD'' \<and>
   1 \<in> set (listeners_of (subscribeTicker (Some new_socket) ''X:BTCUSD'' 1 10 False initial_state) ''BTC-USD'')"
proof -
  have k: "convertTickerFormat ''X:BTCUSD'' = ''BTC-USD''" by code_simp
  have n: "''X:BTCUSD'' \<noteq> ''*''" by simp
  have m: "matches_canonical ''BTC-USD''" by code_simp
  note t = convertTickerFormat_canonical_form [of "''X:BTCUSD''" 1 "Some new_socket" 10 False initial_state]
  have b: "endsWith (convertTickerFormat ''X:BTCUSD'') ''-USD''"
    using t [THEN conjunct2, THEN conjunct1] n by simp
  have d: "convertTickerFormat (convertTickerFormat ''X:BTCUSD'') = convertTickerFormat ''X:BTCUSD''"
    using t [THEN conjunct2, THEN conjunct2, THEN conjunct2, THEN conjunct1] m by (simp only: k)
  have e: "1 \<in> set (listeners_of (subscribeTicker (Some new_socket) ''X:BTCUSD'' 1 10 False initial_state) ''BTC-USD'')"
    using t [THEN conjunct2, THEN conjunct2, THEN conjunct2, THEN conjunct2, THEN conjunct1]
    by (simp only: k)
  show ?thesis using k b d e by (intro conjI)
qed


section \<open>Properties of adding widgets and of persistence\<close>

lemma digit_inj:
  "a < 10 \<Longrightarrow> b < 10 \<Longrightarrow> ''0123456789'' ! a = ''0123456789'' ! b \<Longrightarrow> a = b"
proof -
  assume "a < 10" "b < 10" and e: "''0123456789'' ! a = ''0123456789'' ! b"
  have d: "distinct ''0123456789''" by simp
  have "a < length ''0123456789''" "b < length ''0123456789''"
    using \<open>a < 10\<close> \<open>b < 10\<close> by simp_all
  with d e show "a = b" by (simp only: nth_eq_iff_index_eq)
qed

lemma string_of_nat_nonempty: "string_of_nat n \<noteq> []"
  by (subst string_of_nat.simps) simp

lemma string_of_nat_small: "n < 10 \<Longrightarrow> string_of_nat n = [''0123456789'' ! n]"
  by (subst string_of_nat.simps) simp

lemma string_of_nat_large:
  "\<not> n < 10 \<Longrightarrow> string_of_nat n = string_of_nat (n div 10) @ [''0123456789'' ! (n mod 10)]"
  by (subst string_of_nat.simps) simp

lemma string_of_nat_inj: "string_of_nat n = string_of_nat m \<Longrightarrow> n = m"
proof (induction n arbitrary: m rule: string_of_nat.induct)
  case (1 n)
  show ?case
  proof (cases "n < 10")
    case n: True
    show ?thesis
    proof (cases "m < 10")
      case True
      with n 1(2) show ?thesis by (simp add: string_of_nat_small digit_inj)
    next
      case False
      with n 1(2) string_of_nat_nonempty [of "m div 10"] show ?thesis
        by (simp add: string_of_nat_small string_of_nat_large)
    qed
  next
    case n: False
    show ?thesis
    proof (cases "m < 10")
      case True
      with n 1(2) string_of_nat_nonempty [of "n div 10"] show ?thesis
        by (simp add: string_of_nat_small string_of_nat_large)
    next
      case False
      with n 1(2) have e: "string_of_nat (n div 10) = string_of_nat (m div 10)"
        and d: "''0123456789'' ! (n mod 10) = ''0123456789'' ! (m mod 10)"
        by (simp_all add: string_of_nat_large)
      from 1(1) [OF n e] have q: "n div 10 = m div 10" .
      have r: "n mod 10 = m mod 10" using d by (intro digit_inj) simp_all
      from q r show ?thesis by (metis div_mult_mod_eq)
    qed
  qed
qed

lemma widget_id_inj: "widget_id now = widget_id now' \<Longrightarrow> now = now'"
  by (simp add: widget_id_def string_of_nat_inj)

lemma template_type: "ttype (WIDGET_TEMPLATES kind) = kind"
  by (cases kind) simp_all

text \<open>
  Claim C8, as stated, fails: the id is derived from the clock alone, so it is not
  fresh when the clock reads the same millisecond as for an earlier widget. Two
  widgets added at the same reading share their id, and removing by that id removes
  both.
\<close>

theorem addWidget_same_millisecond_counterexample:
  "map wid (addWidget Stats 1000 (Some 1200) (addWidget Chart 1000 (Some 1200) []))
     = [''widget-1000'', ''widget-1000''] \<and>
   removeWidget ''widget-1000'' (addWidget Stats 1000 (Some 1200) (addWidget Chart 1000 (Some 1200) []))
     = []"
proof -
  have i: "widget_id 1000 = ''widget-1000''"
    by (simp add: widget_id_def string_of_nat.simps)
  show ?thesis
    by (simp add: addWidget_def removeWidget_def i)
qed

text \<open>
  Claim C8, amended. \<^verbatim>\<open>addWidget(kind)\<close> appends one widget to the collection: its type,
  title, description and size are those of the fixed template for \<open>kind\<close>; its id is
  \<^verbatim>\<open>widget-\<close> followed by the clock's reading in milliseconds, so ids assigned at
  different readings differ and the id is fresh whenever no widget of the collection
  was given the same reading; it is placed at \<open>y = 100\<close> and horizontally centred in
  the dashboard container (\<open>x = max 0 ((container width - widget width) / 2)\<close>, the
  centre of the widget being the centre of the container when the container is at
  least as wide), or at the fixed offset (50, 100) when the container cannot be
  measured. Adding one widget of kind chart to an empty dashboard yields a collection
  of length 1 at that position, and removing it yields the empty collection, which is
  persisted as the text of the empty array.
\<close>

theorem addWidget_appends_template:
  "addWidget kind now rect ws =
     ws @ [\<lparr>wid = widget_id now, wtype = kind,
             title = ttitle (WIDGET_TEMPLATES kind),
             description = tdescription (WIDGET_TEMPLATES kind),
             position =
               (case rect of
                  Some w \<Rightarrow> \<lparr>posx = max 0 ((w - width (tsize (WIDGET_TEMPLATES kind))) / 2), posy = 100\<rparr>
                | None \<Rightarrow> \<lparr>posx = 50, posy = 100\<rparr>),
             wsize = tsize (WIDGET_TEMPLATES kind), isMaximized = None\<rparr>] \<and>
   (now \<noteq> now' \<longrightarrow> widget_id now \<noteq> widget_id now') \<and>
   (distinct (map wid ws) \<and> widget_id now \<notin> set (map wid ws) \<longrightarrow>
      distinct (map wid (addWidget kind now rect ws))) \<and>
   (width (tsize (WIDGET_TEMPLATES kind)) \<le> w \<longrightarrow>
      posx (position (last (addWidget kind now (Some w) ws))) +
        width (wsize (last (addWidget kind now (Some w) ws))) / 2 = w / 2) \<and>
   length (addWidget Chart now rect []) = 1 \<and>
   position (hd (addWidget Chart now (Some w) [])) = \<lparr>posx = max 0 ((w - 500) / 2), posy = 100\<rparr> \<and>
   position (hd (addWidget Chart now None [])) = \<lparr>posx = 50, posy = 100\<rparr> \<and>
   removeWidget (widget_id now) (addWidget Chart now rect []) = [] \<and>
   saveLayout stringify_widget (removeWidget (widget_id now) (addWidget Chart now rect [])) = ''[]''"
proof -
  have a: "addWidget kind now rect ws =
     ws @ [\<lparr>wid = widget_id now, wtype = kind,
             title = ttitle (WIDGET_TEMPLATES kind),
             description = tdescription (WIDGET_TEMPLATES kind),
             position =
               (case rect of
                  Some w \<Rightarrow> \<lparr>posx = max 0 ((w - width (tsize (WIDGET_TEMPLATES kind))) / 2), posy = 100\<rparr>
                | None \<Rightarrow> \<lparr>posx = 50, posy = 100\<rparr>),
             wsize = tsize (WIDGET_TEMPLATES kind), isMaximized = None\<rparr>]"
    by (cases rect) (simp_all add: addWidget_def Let_def template_type)
  have b: "now \<noteq> now' \<longrightarrow> widget_id now \<noteq> widget_id now'"
    using widget_id_inj by blast
  have c: "distinct (map wid ws) \<and> widget_id now \<notin> set (map wid ws) \<longrightarrow>
      distinct (map wid (addWidget kind now rect ws))"
    by (cases rect) (simp_all add: addWidget_def Let_def)
  have d: "width (tsize (WIDGET_TEMPLATES kind)) \<le> w \<longrightarrow>
      posx (position (last (addWidget kind now (Some w) ws))) +
        width (wsize (last (addWidget kind now (Some w) ws))) / 2 = w / 2"
    by (simp add: addWidget_def Let_def max_def field_simps)
  have e: "length (addWidget Chart now rect []) = 1"
    by (cases rect) (simp_all add: addWidget_def Let_def)
  have f: "position (hd (addWidget Chart now (Some w) [])) = \<lparr>posx = max 0 ((w - 500) / 2), posy = 100\<rparr>"
    "position (hd (addWidget Chart now None [])) = \<lparr>posx = 50, posy = 100\<rparr>"
    by (simp_all add: addWidget_def Let_def)
  have g: "removeWidget (widget_id now) (addWidget Chart now rect []) = []"
    by (cases rect) (simp_all add: addWidget_def removeWidget_def Let_def)
  have h: "saveLayout stringify_widget (removeWidget (widget_id now) (addWidget Chart now rect [])) = ''[]''"
    by (simp add: g saveLayout_def)
  show ?thesis using a b c d e f g h by (intro conjI)
qed

theorem addWidget_appends_template_witness:
  "widget_id 1000 \<noteq> widget_id 1001 \<and>
   distinct (map wid (addWidget Stats 1001 (Some 1200) (addWidget Chart 1000 (Some 1200) []))) \<and>
   posx (position (last (addWidget Chart 1000 (Some 1200) []))) = 350 \<and>
   length (addWidget Chart 1000 (Some 1200) []) = 1 \<and>
   removeWidget (widget_id 1000) (addWidget Chart 1000 (Some 1200) []) = []"
proof -
  note t = addWidget_appends_template [of Chart 1000 "Some 1200" "[]" 1001 1200]
  note u = addWidget_appends_template [of Stats 1001 "Some 1200" "addWidget Chart 1000 (Some 1200) []" 1000 1200]
  have n: "(1000::nat) \<noteq> 1001" by simp
  have a: "widget_id 1000 \<noteq> widget_id 1001"
    using t [THEN conjunct2, THEN conjunct1] n by blast
  have p: "distinct (map wid (addWidget Chart 1000 (Some 1200) [])) \<and>
      widget_id 1001 \<notin> set (map wid (addWidget Chart 1000 (Some 1200) []))"
    using a by (simp add: addWidget_def Let_def)
  have b: "distinct (map wid (addWidget Stats 1001 (Some 1200) (addWidget Chart 1000 (Some 1200) [])))"
    using u [THEN conjunct2, THEN conjunct2, THEN conjunct1] p by blast
  have q: "width (tsize (WIDGET_TEMPLATES Chart)) \<le> 1200" by simp
  have c: "posx (position (last (addWidget Chart 1000 (Some 1200) []))) = 350"
    using t [THEN conjunct2, THEN conjunct2, THEN conjunct2, THEN conjunct1] q
    by (simp add: addWidget_def Let_def)
  have d: "length (addWidget Chart 1000 (Some 1200) []) = 1"
    using t by blast
  have e: "removeWidget (widget_id 1000) (addWidget Chart 1000 (Some 1200) []) = []"
    using t by blast
  show ?thesis using a b c d e by (intro conjI)
qed




end
